theory Spec2Isabelle
  imports Main "HOL-Library.Word" "HOL-Library.AList"
begin

section \<open>The connection pool of pkg/connection\<close>

text \<open>
  The theory embeds \<^verbatim>\<open>pkg/connection/connection_pool.go\<close>: the two tables of the
  global connection manager, the factory driver \<^verbatim>\<open>createNamedConnection\<close> and the
  public operations on the pool. Every function takes the state it works on and returns
  the state it leaves; the read-write lock serialises the calls, so one call is one step.
\<close>

subsection \<open>Values, errors and connections\<close>

text \<open>Go's \<^verbatim>\<open>any\<close>, as far as the pool looks into it: it asks whether a value is a string.\<close>

datatype any = AString string | AInt int | ABool bool | ANil

text \<open>
  \<^verbatim>\<open>map[string]any\<close>. The pool reads one key, tests for emptiness and hands the bag on
  unchanged; the first binding of a key is the one a lookup sees.
\<close>

type_synonym props = "(string \<times> any) list"

text \<open>
  A \<^verbatim>\<open>modules.Connection\<close> is an interface value: \<open>nil\<close> or a handle. The pool only
  stores it, returns it and calls \<^verbatim>\<open>Close\<close> on it.
\<close>

datatype Connection = nil | Conn nat

text \<open>
  Error values. \<open>Errorf\<close> is an error built in this file by \<^verbatim>\<open>fmt.Errorf\<close>; a
  \<open>foreign\<close> error is one a collaborator (a factory, the configuration store) handed
  back: its kind, which \<^verbatim>\<open>errorx.IsIOError\<close> inspects, and its message. An
  error made here and an error made elsewhere are different Go values even when their
  messages agree.
\<close>

datatype foreign = Foreign nat string

datatype error = Errorf string | Extern foreign

fun ErrorString :: "error \<Rightarrow> string" where
  "ErrorString (Errorf m) = m"
| "ErrorString (Extern (Foreign k m)) = m"

text \<open>
  \<^verbatim>\<open>type ConnectionMeta struct\<close>. \<open>refCount\<close> is a Go \<^verbatim>\<open>int\<close>: 64 bits, two's
  complement, \<^verbatim>\<open>++\<close> and \<^verbatim>\<open>--\<close> wrap; \<open>sint\<close> reads it.
\<close>

record ConnectionMeta =
  ID :: string
  Typ :: string
  Props :: props
  conn :: Connection
  refCount :: "64 word"

subsection \<open>The collaborators\<close>

text \<open>
  A factory of \<^verbatim>\<open>modules.ConnectionRegister\<close>: it sees the outside world (brokers,
  network, clock), of some type \<open>'e\<close>, may change it, and returns Go's pair of a
  connection and an error.
\<close>

type_synonym 'e factory = "'e \<Rightarrow> props \<Rightarrow> (Connection \<times> foreign option) \<times> 'e"

text \<open>
  What the file imports and does not define, taken as parameters:
  \<^item> \<open>ConnectionRegister\<close>: the table \<^verbatim>\<open>modules.ConnectionRegister\<close>;
  \<^item> \<open>IsIOError\<close>: \<^verbatim>\<open>errorx.IsIOError\<close>;
  \<^item> \<open>ToLower\<close>: \<^verbatim>\<open>strings.ToLower\<close>;
  \<^item> \<open>NextBackOffs\<close>: how many intervals the policy made by
    \<^verbatim>\<open>NewExponentialBackOff()\<close> grants before it answers \<^verbatim>\<open>Stop\<close>, which the clock of
    the outside world decides (the elapsed budget is finite);
  \<^item> \<open>WriteCfgErr\<close>, \<open>DropCfgErr\<close>, \<open>GetCfgErr\<close>: the error, if any, with which the
    configuration store answers a write, a delete and a listing in a given outside world.
\<close>

record 'e modules =
  ConnectionRegister :: "string \<rightharpoonup> 'e factory"
  IsIOError :: "foreign \<Rightarrow> bool"
  ToLower :: "string \<Rightarrow> string"
  NextBackOffs :: "'e \<Rightarrow> nat"
  WriteCfgErr :: "'e \<Rightarrow> foreign option"
  DropCfgErr :: "'e \<Rightarrow> foreign option"
  GetCfgErr :: "'e \<Rightarrow> foreign option"

subsection \<open>The state\<close>

text \<open>
  \<open>connectionPool\<close> and \<open>failConnection\<close> are the two maps of
  \<^verbatim>\<open>globalConnectionManager\<close>; \<open>kv\<close> is the content of the configuration store;
  \<open>closed\<close> logs every connection on which \<^verbatim>\<open>Close\<close> ran, the latest first; \<open>ext\<close> is
  the outside world.
\<close>

record 'e world =
  connectionPool :: "string \<rightharpoonup> ConnectionMeta"
  failConnection :: "string \<rightharpoonup> string"
  kv :: "(string \<times> props) list"
  closed :: "Connection list"
  ext :: 'e

definition InitConnectionManager :: "'e world \<Rightarrow> 'e world" where
  "InitConnectionManager w = w\<lparr>connectionPool := Map.empty, failConnection := Map.empty\<rparr>"

subsection \<open>The configuration store\<close>

definition buildKey :: "string \<Rightarrow> string \<Rightarrow> string \<Rightarrow> string" where
  \<comment> \<open>Modelled from the spec: the composite key \<^verbatim>\<open><namespace>.<typ>.<id>\<close> of the store,
      whose package \<^verbatim>\<open>internal/conf\<close> is not in the sources at hand.\<close>
  "buildKey ns plugin cid = ns @ ''.'' @ plugin @ ''.'' @ cid"

definition WriteCfgIntoKVStorage ::
  "'e modules \<Rightarrow> string \<Rightarrow> string \<Rightarrow> string \<Rightarrow> props \<Rightarrow> 'e world \<Rightarrow> error option \<times> 'e world" where
  \<comment> \<open>Modelled from the spec: \<^verbatim>\<open>conf.WriteCfgIntoKVStorage\<close>, the store's write of a keyed
      property map; it fails with the store's error or binds the key to the map.\<close>
  "WriteCfgIntoKVStorage M ns plugin cid props w =
     (case WriteCfgErr M (ext w) of
        Some e \<Rightarrow> (Some (Extern e), w)
      | None \<Rightarrow> (None, w\<lparr>kv := AList.update (buildKey ns plugin cid) props (kv w)\<rparr>))"

definition DropCfgKeyFromStorage ::
  "'e modules \<Rightarrow> string \<Rightarrow> string \<Rightarrow> string \<Rightarrow> 'e world \<Rightarrow> error option \<times> 'e world" where
  \<comment> \<open>Modelled from the spec: \<^verbatim>\<open>conf.DropCfgKeyFromStorage\<close>, the store's delete by key.\<close>
  "DropCfgKeyFromStorage M ns plugin cid w =
     (case DropCfgErr M (ext w) of
        Some e \<Rightarrow> (Some (Extern e), w)
      | None \<Rightarrow> (None, w\<lparr>kv := AList.delete (buildKey ns plugin cid) (kv w)\<rparr>))"

definition GetCfgFromKVStorage ::
  "'e modules \<Rightarrow> string \<Rightarrow> 'e world \<Rightarrow> (string \<times> props) list \<times> error option" where
  \<comment> \<open>Modelled from the spec: \<^verbatim>\<open>conf.GetCfgFromKVStorage(ns, "", "")\<close>, the listing of all
      entries under a prefix, keys as stored. The list order stands for the order in which
      Go ranges over the returned map.\<close>
  "GetCfgFromKVStorage M ns w =
     (case GetCfgErr M (ext w) of
        Some e \<Rightarrow> ([], Some (Extern e))
      | None \<Rightarrow> (filter (\<lambda>(k, v). take (length ns) k = ns) (kv w), None))"

text \<open>
  \<^verbatim>\<open>storeConnectionMeta\<close> and \<^verbatim>\<open>dropConnectionStore\<close>. Their \<^verbatim>\<open>failpoint.Inject\<close>
  markers do nothing in a build without failpoints enabled.
\<close>

definition storeConnectionMeta ::
  "'e modules \<Rightarrow> string \<Rightarrow> string \<Rightarrow> props \<Rightarrow> 'e world \<Rightarrow> error option \<times> 'e world" where
  "storeConnectionMeta M plugin cid props w =
     WriteCfgIntoKVStorage M ''connections'' plugin cid props w"

definition dropConnectionStore ::
  "'e modules \<Rightarrow> string \<Rightarrow> string \<Rightarrow> 'e world \<Rightarrow> error option \<times> 'e world" where
  "dropConnectionStore M plugin cid w = DropCfgKeyFromStorage M ''connections'' plugin cid w"

subsection \<open>Queries and the selector\<close>

definition GetConnectionRef :: "'e world \<Rightarrow> string \<Rightarrow> 64 word" where
  "GetConnectionRef w cid =
     (case connectionPool w cid of None \<Rightarrow> 0 | Some meta \<Rightarrow> refCount meta)"

definition extractSelID :: "props \<Rightarrow> string" where
  "extractSelID props =
     (if length props < 1 then []
      else case map_of props ''connectionSelector'' of
             None \<Rightarrow> []
           | Some v \<Rightarrow> (case v of AString cid \<Rightarrow> cid | _ \<Rightarrow> []))"

subsection \<open>The factory driver\<close>

text \<open>
  What the closure passed to \<^verbatim>\<open>backoff.Retry\<close> returns besides \<^verbatim>\<open>nil\<close>: an error, or
  an error wrapped by \<^verbatim>\<open>backoff.Permanent\<close>.
\<close>

datatype berror = Plain error | Permanent error

text \<open>
  \<^verbatim>\<open>backoff.Retry\<close> of the backoff library, from its documented behaviour: it calls the
  operation; \<^verbatim>\<open>nil\<close> ends the loop with \<^verbatim>\<open>nil\<close>, a permanent error ends it with the
  wrapped error, any other error ends it with that error when the policy answers
  \<^verbatim>\<open>Stop\<close> and is retried otherwise. The second argument is the number of intervals the
  policy still grants.
\<close>

fun Retry :: "('s \<Rightarrow> berror option \<times> 's) \<Rightarrow> nat \<Rightarrow> 's \<Rightarrow> error option \<times> 's" where
  "Retry operation 0 s =
     (case operation s of
        (None, s') \<Rightarrow> (None, s')
      | (Some (Permanent e), s') \<Rightarrow> (Some e, s')
      | (Some (Plain e), s') \<Rightarrow> (Some e, s'))"
| "Retry operation (Suc b) s =
     (case operation s of
        (None, s') \<Rightarrow> (None, s')
      | (Some (Permanent e), s') \<Rightarrow> (Some e, s')
      | (Some (Plain e), s') \<Rightarrow> Retry operation b s')"

text \<open>
  The closure of \<^verbatim>\<open>createNamedConnection\<close>. Its state is the captured variable
  \<^verbatim>\<open>conn\<close> and the outside world; the captured \<^verbatim>\<open>err\<close> is overwritten by the result of
  \<^verbatim>\<open>Retry\<close>. The \<^verbatim>\<open>failpoint.Inject\<close> marker in it does nothing in a build without
  failpoints enabled.
\<close>

definition operation ::
  "'e modules \<Rightarrow> 'e factory \<Rightarrow> props \<Rightarrow> Connection \<times> 'e \<Rightarrow> berror option \<times> (Connection \<times> 'e)" where
  "operation M connRegister props s =
     (case connRegister (snd s) props of
        ((c, None), x') \<Rightarrow> (None, (c, x'))
      | ((c, Some err), x') \<Rightarrow>
          (if IsIOError M err then (Some (Plain (Extern err)), (c, x'))
           else (Some (Permanent (Extern err)), (c, x'))))"

definition createNamedConnection ::
  "'e modules \<Rightarrow> 'e \<Rightarrow> ConnectionMeta \<Rightarrow> (Connection \<times> error option) \<times> 'e" where
  "createNamedConnection M x meta =
     (case ConnectionRegister M (ToLower M (Typ meta)) of
        None \<Rightarrow> ((nil, Some (Errorf ''unknown connection type'')), x)
      | Some connRegister \<Rightarrow>
          (case Retry (operation M connRegister (Props meta)) (NextBackOffs M x) (nil, x) of
             (err, (c, x')) \<Rightarrow> ((c, err), x')))"

subsection \<open>Creating\<close>

definition CreateNamedConnection ::
  "'e modules \<Rightarrow> 'e world \<Rightarrow> string \<Rightarrow> string \<Rightarrow> props \<Rightarrow> (Connection \<times> error option) \<times> 'e world" where
  "CreateNamedConnection M w cid typ props =
     (if cid = [] \<or> typ = [] then
        ((nil, Some (Errorf ''connection id and type should be defined'')), w)
      else if connectionPool w cid \<noteq> None then
        ((nil, Some (Errorf (''connection '' @ cid @ '' already been created''))), w)
      else
        let meta = \<lparr>ID = cid, Typ = typ, Props = props, conn = nil, refCount = 0\<rparr> in
        case storeConnectionMeta M typ cid props w of
          (Some err, w1) \<Rightarrow> ((nil, Some err), w1)
        | (None, w1) \<Rightarrow>
            (case createNamedConnection M (ext w1) meta of
               ((c, Some err), x') \<Rightarrow> ((nil, Some err), w1\<lparr>ext := x'\<rparr>)
             | ((c, None), x') \<Rightarrow>
                 ((c, None),
                  w1\<lparr>ext := x',
                     connectionPool := (connectionPool w1)(cid \<mapsto> meta\<lparr>conn := c\<rparr>),
                     failConnection :=
                       (if failConnection w1 cid \<noteq> None then (failConnection w1)(cid := None)
                        else failConnection w1)\<rparr>)))"

definition CreateNonStoredConnection ::
  "'e modules \<Rightarrow> 'e world \<Rightarrow> string \<Rightarrow> string \<Rightarrow> props \<Rightarrow> (Connection \<times> error option) \<times> 'e world" where
  "CreateNonStoredConnection M w cid typ props =
     (if cid = [] \<or> typ = [] then
        ((nil, Some (Errorf ''connection id and type should be defined'')), w)
      else if connectionPool w cid \<noteq> None then
        ((nil, Some (Errorf (''connection '' @ cid @ '' already been created''))), w)
      else
        let meta = \<lparr>ID = cid, Typ = typ, Props = props, conn = nil, refCount = 0\<rparr> in
        case createNamedConnection M (ext w) meta of
          ((c, Some err), x') \<Rightarrow> ((nil, Some err), w\<lparr>ext := x'\<rparr>)
        | ((c, None), x') \<Rightarrow>
            ((c, None),
             w\<lparr>ext := x', connectionPool := (connectionPool w)(cid \<mapsto> meta\<lparr>conn := c\<rparr>)\<rparr>))"

subsection \<open>Attaching and detaching\<close>

definition attachConnection :: "'e world \<Rightarrow> string \<Rightarrow> (Connection \<times> error option) \<times> 'e world" where
  "attachConnection w cid =
     (if cid = [] then ((nil, Some (Errorf ''connection id should be defined'')), w)
      else case connectionPool w cid of
             None \<Rightarrow> ((nil, Some (Errorf (''connection '' @ cid @ '' not existed''))), w)
           | Some meta \<Rightarrow>
               ((conn meta, None),
                w\<lparr>connectionPool :=
                    (connectionPool w)(cid \<mapsto> meta\<lparr>refCount := refCount meta + 1\<rparr>)\<rparr>))"

definition FetchConnection ::
  "'e modules \<Rightarrow> 'e world \<Rightarrow> string \<Rightarrow> string \<Rightarrow> props \<Rightarrow> (Connection \<times> error option) \<times> 'e world" where
  "FetchConnection M w cid typ props =
     (if cid = [] then ((nil, Some (Errorf ''connection id should be defined'')), w)
      else
        let selID = extractSelID props in
        if length selID < 1 then CreateNonStoredConnection M w cid typ props
        else attachConnection w selID)"

text \<open>
  A call that invokes \<^verbatim>\<open>Close\<close> returns or panics. \<^verbatim>\<open>conn.Close(ctx)\<close> on a \<open>nil\<close>
  connection is a method call on a nil interface value: a run-time panic raised before
  anything is closed and before the \<^verbatim>\<open>delete\<close> that follows. The deferred
  \<^verbatim>\<open>Unlock\<close> runs and the state stays as the panic found it.
\<close>

datatype 'a outcome = Returns 'a | Panics

definition detachConnection ::
  "'e world \<Rightarrow> string \<Rightarrow> bool \<Rightarrow> error option outcome \<times> 'e world" where
  "detachConnection w cid remove =
     (case connectionPool w cid of
        None \<Rightarrow> (Returns None, w)
      | Some meta \<Rightarrow>
          if remove then
            (if conn meta = nil then (Panics, w)
             else (Returns None,
                   w\<lparr>closed := conn meta # closed w,
                     connectionPool := (connectionPool w)(cid := None)\<rparr>))
          else
            (Returns None,
             w\<lparr>connectionPool :=
                 (connectionPool w)(cid \<mapsto> meta\<lparr>refCount := refCount meta - 1\<rparr>)\<rparr>))"

definition DetachConnection ::
  "'e world \<Rightarrow> string \<Rightarrow> props \<Rightarrow> error option outcome \<times> 'e world" where
  "DetachConnection w cid props =
     (if cid = [] then (Returns (Some (Errorf ''connection id should be defined'')), w)
      else
        let selID = extractSelID props in
        if length selID < 1 then detachConnection w cid True
        else detachConnection w selID False)"

subsection \<open>Dropping\<close>

definition DropNameConnection ::
  "'e modules \<Rightarrow> 'e world \<Rightarrow> string \<Rightarrow> error option outcome \<times> 'e world" where
  "DropNameConnection M w selId =
     (if selId = [] then (Returns (Some (Errorf ''connection id should be defined'')), w)
      else case connectionPool w selId of
             None \<Rightarrow>
               (if failConnection w selId \<noteq> None
                then (Returns None, w\<lparr>failConnection := (failConnection w)(selId := None)\<rparr>)
                else (Returns None, w))
           | Some meta \<Rightarrow>
               if 0 <s refCount meta then
                 (Returns (Some (Errorf (''connection '' @ selId
                                         @ '' can't be dropped due to reference''))), w)
               else
                 (case dropConnectionStore M (Typ meta) selId w of
                    (Some err, w1) \<Rightarrow>
                      (Returns (Some (Errorf (''drop connection '' @ selId @ '' failed, err:''
                                              @ ErrorString err))), w1)
                  | (None, w1) \<Rightarrow>
                      if conn meta = nil then (Panics, w1)
                      else (Returns None,
                            w1\<lparr>closed := conn meta # closed w1,
                               connectionPool := (connectionPool w1)(selId := None)\<rparr>)))"

subsection \<open>Reloading\<close>

text \<open>\<^verbatim>\<open>strings.Split(s, sep)\<close> for a separator of one character.\<close>

fun Split :: "string \<Rightarrow> char \<Rightarrow> string list" where
  "Split [] sep = [] # []"
| "Split (c # cs) sep =
     (if c = sep then [] # Split cs sep
      else case Split cs sep of
             [] \<Rightarrow> [c] # []
           | x # xs \<Rightarrow> (c # x) # xs)"

text \<open>The body of the loop of \<^verbatim>\<open>ReloadConnection\<close> over the listed entries.\<close>

fun reloadEntries :: "'e modules \<Rightarrow> (string \<times> props) list \<Rightarrow> 'e world \<Rightarrow> 'e world" where
  "reloadEntries M [] w = w"
| "reloadEntries M ((key, props) # cfgs) w =
     (let names = Split key CHR ''.'' in
      if length names \<noteq> 3 then reloadEntries M cfgs w
      else
        let typ = names ! 1;
            cid = names ! 2;
            meta = \<lparr>ID = cid, Typ = typ, Props = props, conn = nil, refCount = 0\<rparr>
        in case createNamedConnection M (ext w) meta of
             ((c, Some err), x') \<Rightarrow>
               reloadEntries M cfgs
                 (w\<lparr>ext := x', failConnection := (failConnection w)(cid \<mapsto> ErrorString err)\<rparr>)
           | ((c, None), x') \<Rightarrow>
               reloadEntries M cfgs
                 (w\<lparr>ext := x',
                    connectionPool := (connectionPool w)(cid \<mapsto> meta\<lparr>conn := c\<rparr>)\<rparr>))"

definition ReloadConnection :: "'e modules \<Rightarrow> 'e world \<Rightarrow> error option \<times> 'e world" where
  "ReloadConnection M w =
     (case GetCfgFromKVStorage M ''connections'' w of
        (cfgs, Some err) \<Rightarrow> (Some err, w)
      | (cfgs, None) \<Rightarrow> (None, reloadEntries M cfgs w))"

subsection \<open>Sequences of calls\<close>

text \<open>
  A call of the public surface with its arguments, or a move of the outside world between
  two calls.
\<close>

datatype 'e call =
    CallCreateNamed string string props
  | CallCreateNonStored string string props
  | CallFetch string string props
  | CallDetach string props
  | CallDrop string
  | CallReload
  | Elsewhere 'e

fun exec :: "'e modules \<Rightarrow> 'e call \<Rightarrow> 'e world \<Rightarrow> 'e world" where
  "exec M (CallCreateNamed cid typ props) w = snd (CreateNamedConnection M w cid typ props)"
| "exec M (CallCreateNonStored cid typ props) w = snd (CreateNonStoredConnection M w cid typ props)"
| "exec M (CallFetch cid typ props) w = snd (FetchConnection M w cid typ props)"
| "exec M (CallDetach cid props) w = snd (DetachConnection w cid props)"
| "exec M (CallDrop selId) w = snd (DropNameConnection M w selId)"
| "exec M CallReload w = snd (ReloadConnection M w)"
| "exec M (Elsewhere x) w = w\<lparr>ext := x\<rparr>"

fun run :: "'e modules \<Rightarrow> 'e call list \<Rightarrow> 'e world \<Rightarrow> 'e world" where
  "run M [] w = w"
| "run M (c # cs) w = run M cs (exec M c w)"

subsection \<open>Properties of a state\<close>

definition refCountsNonNegative :: "'e world \<Rightarrow> bool" where
  "refCountsNonNegative w =
     (\<forall>cid meta. connectionPool w cid = Some meta \<longrightarrow> 0 \<le>s refCount meta)"

definition tablesDisjoint :: "'e world \<Rightarrow> bool" where
  "tablesDisjoint w = (dom (connectionPool w) \<inter> dom (failConnection w) = {})"

text \<open>
  A call is balanced in a state when, if it detaches by selector from a live record, that
  record holds a positive count, and if it attaches to a live record, the count of that
  record is below the largest \<^verbatim>\<open>int\<close>.
\<close>

fun balanced :: "'e world \<Rightarrow> 'e call \<Rightarrow> bool" where
  "balanced w (CallDetach cid props) =
     (cid \<noteq> [] \<and> extractSelID props \<noteq> [] \<longrightarrow>
        (case connectionPool w (extractSelID props) of
           None \<Rightarrow> True
         | Some meta \<Rightarrow> 0 <s refCount meta))"
| "balanced w (CallFetch cid typ props) =
     (cid \<noteq> [] \<and> extractSelID props \<noteq> [] \<longrightarrow>
        (case connectionPool w (extractSelID props) of
           None \<Rightarrow> True
         | Some meta \<Rightarrow> sint (refCount meta) \<noteq> 2 ^ 63 - 1))"
| "balanced w c = True"

fun balancedRun :: "'e modules \<Rightarrow> 'e call list \<Rightarrow> 'e world \<Rightarrow> bool" where
  "balancedRun M [] w = True"
| "balancedRun M (c # cs) w = (balanced w c \<and> balancedRun M cs (exec M c w))"

text \<open>The id under which the loop of \<^verbatim>\<open>ReloadConnection\<close> files a listed key, if any.\<close>

definition entryID :: "string \<Rightarrow> string option" where
  "entryID key =
     (let names = Split key CHR ''.'' in if length names \<noteq> 3 then None else Some (names ! 2))"

definition listedIDs :: "(string \<times> props) list \<Rightarrow> string list" where
  "listedIDs cfgs = List.map_filter (\<lambda>(key, props). entryID key) cfgs"

text \<open>
  A call is tidy in a state when it cannot put an id into both tables: a creation without
  store write (direct, or by a fetch without selector) of an id that is not in the failed
  table, a reload whose listed ids are pairwise distinct and in neither table, or any other
  call.
\<close>

fun tidy :: "'e modules \<Rightarrow> 'e world \<Rightarrow> 'e call \<Rightarrow> bool" where
  "tidy M w (CallCreateNonStored cid typ props) = (failConnection w cid = None)"
| "tidy M w (CallFetch cid typ props) =
     (extractSelID props = [] \<longrightarrow> failConnection w cid = None)"
| "tidy M w CallReload =
     (let ids = listedIDs (fst (GetCfgFromKVStorage M ''connections'' w))
      in distinct ids \<and>
         (\<forall>i \<in> set ids. connectionPool w i = None \<and> failConnection w i = None))"
| "tidy M w c = True"

subsection \<open>A test bed\<close>

text \<open>
  Three factories over an outside world that counts factory calls: \<open>mock\<close> always
  connects, \<open>bad\<close> always fails with a configuration error, \<open>flaky\<close> fails with an I/O
  error on every even call and connects on every odd one. A fourth, \<open>void\<close>, returns a
  \<open>nil\<close> connection and no error. The store never fails and the backoff policy grants
  three intervals.
\<close>

definition asciiLower :: "string \<Rightarrow> string" where
  "asciiLower s =
     map (\<lambda>c. if (65::nat) \<le> of_char c \<and> of_char c \<le> (90::nat)
               then char_of (of_char c + (32::nat)) else c) s"

definition mockFactory :: "nat factory" where
  "mockFactory x props = ((Conn x, None), Suc x)"

definition badFactory :: "nat factory" where
  "badFactory x props = ((nil, Some (Foreign 0 ''bad configuration'')), Suc x)"

definition flakyFactory :: "nat factory" where
  "flakyFactory x props =
     (if even x then ((nil, Some (Foreign 1 ''connection refused'')), Suc x)
      else ((Conn x, None), Suc x))"

definition voidFactory :: "nat factory" where
  "voidFactory x props = ((nil, None), Suc x)"

definition mockModules :: "nat modules" where
  "mockModules =
     \<lparr>ConnectionRegister =
        [''mock'' \<mapsto> mockFactory, ''bad'' \<mapsto> badFactory, ''flaky'' \<mapsto> flakyFactory,
         ''void'' \<mapsto> voidFactory],
      IsIOError = (\<lambda>e. case e of Foreign k m \<Rightarrow> k = 1),
      ToLower = asciiLower,
      NextBackOffs = (\<lambda>x. 3),
      WriteCfgErr = (\<lambda>x. None),
      DropCfgErr = (\<lambda>x. None),
      GetCfgErr = (\<lambda>x. None)\<rparr>"

definition world0 :: "nat world" where
  "world0 =
     \<lparr>connectionPool = Map.empty, failConnection = Map.empty, kv = [], closed = [], ext = 0\<rparr>"

definition selC1 :: props where
  "selC1 = [(''connectionSelector'', AString ''c1'')]"

text \<open>
  States of the test bed: \<open>namedWorld\<close> after creating the named connection \<open>c1\<close>,
  \<open>sharedWorld\<close> after one attach to it, \<open>anonWorld\<close> after a fetch without selector
  under the id \<open>anon1\<close>.
\<close>

definition namedWorld :: "nat world" where
  "namedWorld = snd (CreateNamedConnection mockModules world0 ''c1'' ''mock'' [])"

definition sharedWorld :: "nat world" where
  "sharedWorld = snd (FetchConnection mockModules namedWorld ''x'' ''mock'' selC1)"

definition anonWorld :: "nat world" where
  "anonWorld = snd (FetchConnection mockModules world0 ''anon1'' ''mock'' [])"

text \<open>
  \<open>storedWorld\<close> holds two persisted entries and empty tables, \<open>reloadedWorld\<close> is
  what \<^verbatim>\<open>ReloadConnection\<close> makes of it; \<open>failingStore\<close> is the test bed with a store
  that refuses every delete.
\<close>

definition storedWorld :: "nat world" where
  "storedWorld = world0\<lparr>kv := [(''connections.mock.c1'', []), (''connections.bad.c2'', [])]\<rparr>"

definition reloadedWorld :: "nat world" where
  "reloadedWorld = snd (ReloadConnection mockModules storedWorld)"

text \<open>
  \<open>selNone\<close> binds the selector to a number, \<open>selEmpty\<close> to the empty string.
  \<open>numberWorld\<close> is the state after a fetch under \<open>anon1\<close> with \<open>selNone\<close>,
  \<open>voidWorld\<close> the state after a fetch under \<open>v1\<close> whose factory returned \<open>nil\<close>.
  \<open>emptyIdWorld\<close> is what \<^verbatim>\<open>ReloadConnection\<close> makes of a store that lists the key
  \<^verbatim>\<open>connections.mock.\<close>, whose third segment is empty.
\<close>

definition selNone :: props where
  "selNone = [(''connectionSelector'', AInt 7)]"

definition selEmpty :: props where
  "selEmpty = [(''connectionSelector'', AString [])]"

definition numberWorld :: "nat world" where
  "numberWorld = snd (FetchConnection mockModules world0 ''anon1'' ''mock'' selNone)"

definition voidWorld :: "nat world" where
  "voidWorld = snd (FetchConnection mockModules world0 ''v1'' ''void'' [])"

definition emptyIdWorld :: "nat world" where
  "emptyIdWorld =
     snd (ReloadConnection mockModules (world0\<lparr>kv := [(''connections.mock.'', [])]\<rparr>))"

definition failingStore :: "nat modules" where
  "failingStore = mockModules\<lparr>DropCfgErr := \<lambda>x. Some (Foreign 2 ''disk full'')\<rparr>"

section \<open>Properties\<close>

subsection \<open>The selector\<close>

lemma extractSelID_unusable:
  "(\<forall>s. map_of props ''connectionSelector'' = Some (AString s) \<longrightarrow> s = []) \<Longrightarrow>
   extractSelID props = []"
  by (auto simp: extractSelID_def split: option.splits any.splits)

lemma extractSelID_string:
  "map_of props ''connectionSelector'' = Some (AString s) \<Longrightarrow> extractSelID props = s"
  by (cases props) (auto simp: extractSelID_def)

subsection \<open>Attaching and detaching\<close>

lemma sint_succ:
  fixes x :: "64 word"
  assumes "sint x \<noteq> 2 ^ 63 - 1"
  shows "sint (x + 1) = sint x + 1"
proof -
  have lt: "sint x < 2 ^ 63" using sint_lt [of x] by simp
  have ge: "- (2 ^ 63) \<le> sint x" using sint_ge [of x] by simp
  have "sint (x + 1) = signed_take_bit 63 (sint x + 1)"
    by (simp add: sint_word_ariths)
  also have "\<dots> = sint x + 1"
    using assms lt ge by (simp add: signed_take_bit_int_eq_self_iff)
  finally show ?thesis .
qed

lemma sint_pred:
  fixes x :: "64 word"
  assumes "sint x \<noteq> - (2 ^ 63)"
  shows "sint (x - 1) = sint x - 1"
proof -
  have lt: "sint x < 2 ^ 63" using sint_lt [of x] by simp
  have ge: "- (2 ^ 63) \<le> sint x" using sint_ge [of x] by simp
  have "sint (x - 1) = signed_take_bit 63 (sint x - 1)"
    by (simp add: sint_word_ariths)
  also have "\<dots> = sint x - 1"
    using assms lt ge by (simp add: signed_take_bit_int_eq_self_iff)
  finally show ?thesis .
qed

lemma FetchConnection_attach:
  assumes "connectionPool w s = Some meta" and "s \<noteq> []" and "cid \<noteq> []"
    and "map_of props ''connectionSelector'' = Some (AString s)"
  shows "FetchConnection M w cid typ props =
           ((conn meta, None),
            w\<lparr>connectionPool := (connectionPool w)(s \<mapsto> meta\<lparr>refCount := refCount meta + 1\<rparr>)\<rparr>)"
  using assms by (simp add: FetchConnection_def extractSelID_string attachConnection_def)

text \<open>
  C10 as stated fails for a live record under the empty id. \<^verbatim>\<open>ReloadConnection\<close> splits
  the listed key \<^verbatim>\<open>connections.mock.\<close> into three segments and files the connection
  under the third, the empty string. A \<^verbatim>\<open>FetchConnection\<close> whose selector is that id
  finds \<^verbatim>\<open>len(selID) < 1\<close> and goes to \<^verbatim>\<open>CreateNonStoredConnection\<close>: it returns a
  new connection, files it under the caller's id, and the record under the empty id keeps
  its connection and its count of 0.
\<close>

theorem attach_empty_id_counterexample:
  "connectionPool emptyIdWorld []
     = Some \<lparr>ID = [], Typ = ''mock'', Props = [], conn = Conn 0, refCount = 0\<rparr>
   \<and> map_of selEmpty ''connectionSelector'' = Some (AString [])
   \<and> fst (FetchConnection mockModules emptyIdWorld ''x'' ''mock'' selEmpty) = (Conn 1, None)
   \<and> connectionPool (snd (FetchConnection mockModules emptyIdWorld ''x'' ''mock'' selEmpty)) []
       = Some \<lparr>ID = [], Typ = ''mock'', Props = [], conn = Conn 0, refCount = 0\<rparr>
   \<and> connectionPool (snd (FetchConnection mockModules emptyIdWorld ''x'' ''mock'' selEmpty)) ''x''
       = Some \<lparr>ID = ''x'', Typ = ''mock'', Props = selEmpty, conn = Conn 1, refCount = 0\<rparr>"
  by code_simp

text \<open>
  C10, amended: attaching does not ask how a record came to be live. For every live record
  under a non-empty id \<open>s\<close> and every caller with a non-empty id, \<^verbatim>\<open>FetchConnection\<close>
  with \<^verbatim>\<open>connectionSelector\<close> bound to \<open>s\<close> succeeds, returns the connection the record
  holds and adds one to its count (\<^verbatim>\<open>refCount++\<close>, which is one more as a number unless
  the count is the largest \<^verbatim>\<open>int\<close>); nothing else changes. The witness attaches to a
  record that a fetch without selector made.
\<close>

theorem attach_any_live_record:
  assumes "connectionPool w s = Some meta" and "s \<noteq> []" and "cid \<noteq> []"
    and "map_of props ''connectionSelector'' = Some (AString s)"
  shows "FetchConnection M w cid typ props =
           ((conn meta, None),
            w\<lparr>connectionPool := (connectionPool w)(s \<mapsto> meta\<lparr>refCount := refCount meta + 1\<rparr>)\<rparr>)
       \<and> GetConnectionRef (snd (FetchConnection M w cid typ props)) s = GetConnectionRef w s + 1
       \<and> (sint (refCount meta) \<noteq> 2 ^ 63 - 1 \<longrightarrow>
            sint (GetConnectionRef (snd (FetchConnection M w cid typ props)) s)
              = sint (GetConnectionRef w s) + 1)"
proof -
  note eq = FetchConnection_attach [OF assms, of M "typ"]
  have ref: "GetConnectionRef (snd (FetchConnection M w cid typ props)) s = refCount meta + 1"
    by (simp add: eq GetConnectionRef_def)
  have ref0: "GetConnectionRef w s = refCount meta"
    using assms(1) by (simp add: GetConnectionRef_def)
  show ?thesis
    using eq ref ref0 by (simp add: sint_succ)
qed

lemma anonWorld_record:
  "connectionPool anonWorld ''anon1'' =
     Some \<lparr>ID = ''anon1'', Typ = ''mock'', Props = [], conn = Conn 0, refCount = 0\<rparr>"
  by code_simp

theorem attach_any_live_record_witness:
  "connectionPool anonWorld ''anon1'' =
     Some \<lparr>ID = ''anon1'', Typ = ''mock'', Props = [], conn = Conn 0, refCount = 0\<rparr>
   \<and> fst (FetchConnection mockModules anonWorld ''x'' ''mock''
            [(''connectionSelector'', AString ''anon1'')]) = (Conn 0, None)
   \<and> GetConnectionRef (snd (FetchConnection mockModules anonWorld ''x'' ''mock''
            [(''connectionSelector'', AString ''anon1'')])) ''anon1'' = 1"
proof -
  have h2: "''anon1'' \<noteq> []" and h3: "''x'' \<noteq> []" by simp_all
  have h4: "map_of [(''connectionSelector'', AString ''anon1'')] ''connectionSelector''
              = Some (AString ''anon1'')" by simp
  have r0: "GetConnectionRef anonWorld ''anon1'' = 0"
    by (simp add: GetConnectionRef_def anonWorld_record)
  show ?thesis
    using attach_any_live_record [OF anonWorld_record h2 h3 h4, of mockModules "''mock''"] r0
    by (simp add: anonWorld_record GetConnectionRef_def)
qed

text \<open>
  C7: for a live record under a non-empty id \<open>s\<close> with any count \<open>n\<close>, a successful
  \<^verbatim>\<open>FetchConnection\<close> with selector \<open>s\<close> followed by a \<^verbatim>\<open>DetachConnection\<close> with
  selector \<open>s\<close>, each under a non-empty caller id, returns no error and leaves the count
  of \<open>s\<close> at \<open>n\<close>; the whole state is the one before the attach.
\<close>

theorem attach_detach_roundtrip:
  assumes "connectionPool w s = Some meta" and "s \<noteq> []" and "cid \<noteq> []" and "cid' \<noteq> []"
    and "map_of props ''connectionSelector'' = Some (AString s)"
    and "map_of props' ''connectionSelector'' = Some (AString s)"
    and "FetchConnection M w cid typ props = ((c, None), w1)"
  shows "DetachConnection w1 cid' props' = (Returns None, w)
       \<and> GetConnectionRef (snd (DetachConnection w1 cid' props')) s = refCount meta"
proof -
  have w1: "w1 = w\<lparr>connectionPool :=
                    (connectionPool w)(s \<mapsto> meta\<lparr>refCount := refCount meta + 1\<rparr>)\<rparr>"
    using FetchConnection_attach [OF assms(1,2,3,5), of M "typ"] assms(7) by simp
  have same: "(connectionPool w)(s \<mapsto> meta) = connectionPool w"
    using assms(1) by (simp add: fun_upd_idem)
  have "DetachConnection w1 cid' props' = (Returns None, w)"
    using assms(2,4)
    by (simp add: DetachConnection_def extractSelID_string [OF assms(6)] detachConnection_def
        w1 same)
  then show ?thesis
    using assms(1) by (simp add: GetConnectionRef_def)
qed

lemma namedWorld_record:
  "connectionPool namedWorld ''c1'' =
     Some \<lparr>ID = ''c1'', Typ = ''mock'', Props = [], conn = Conn 0, refCount = 0\<rparr>"
  by code_simp

lemma sharedWorld_fetch:
  "fst (FetchConnection mockModules namedWorld ''x'' ''mock'' selC1) = (Conn 0, None)"
  by code_simp

theorem attach_detach_roundtrip_witness:
  "connectionPool namedWorld ''c1'' =
     Some \<lparr>ID = ''c1'', Typ = ''mock'', Props = [], conn = Conn 0, refCount = 0\<rparr>
   \<and> FetchConnection mockModules namedWorld ''x'' ''mock'' selC1 = ((Conn 0, None), sharedWorld)
   \<and> DetachConnection sharedWorld ''x'' selC1 = (Returns None, namedWorld)
   \<and> GetConnectionRef (snd (DetachConnection sharedWorld ''x'' selC1)) ''c1'' = 0"
proof -
  have h2: "''c1'' \<noteq> []" and h3: "''x'' \<noteq> []" by simp_all
  have h5: "map_of selC1 ''connectionSelector'' = Some (AString ''c1'')"
    by (simp add: selC1_def)
  have h7: "FetchConnection mockModules namedWorld ''x'' ''mock'' selC1 = ((Conn 0, None), sharedWorld)"
    using sharedWorld_fetch by (simp add: sharedWorld_def prod_eq_iff)
  show ?thesis
    using attach_detach_roundtrip [OF namedWorld_record h2 h3 h3 h5 h5 h7] h7
    by (simp add: namedWorld_record GetConnectionRef_def)
qed

subsection \<open>The factory driver\<close>

lemma operation_conn_irrelevant:
  "operation M connRegister props (c1, x) = operation M connRegister props (c2, x)"
  by (simp add: operation_def)

lemma Retry_conn_irrelevant:
  "Retry (operation M connRegister props) b (c1, x)
     = Retry (operation M connRegister props) b (c2, x)"
  by (cases b) (simp_all add: operation_conn_irrelevant [of M connRegister props c1 x c2])

lemma operation_NextBackOffs:
  "operation (M\<lparr>NextBackOffs := g\<rparr>) = operation M"
  by (simp add: operation_def fun_eq_iff)

lemma operation_cases:
  "operation M connRegister props s = (r, s') \<Longrightarrow>
     r = None \<or> (\<exists>e. r = Some (Plain (Extern e))) \<or> (\<exists>e. r = Some (Permanent (Extern e)))"
  by (auto simp: operation_def split: prod.splits option.splits if_splits)

lemma Retry_error_is_foreign:
  "Retry (operation M connRegister props) n s = (Some e, s') \<Longrightarrow> \<exists>g. e = Extern g"
proof (induction n arbitrary: s)
  case 0
  obtain r s1 where op: "operation M connRegister props s = (r, s1)"
    by (cases "operation M connRegister props s")
  from operation_cases [OF op] "0" op show ?case
    by auto
next
  case (Suc n)
  obtain r s1 where op: "operation M connRegister props s = (r, s1)"
    by (cases "operation M connRegister props s")
  from operation_cases [OF op] consider
      "r = None" | g where "r = Some (Plain (Extern g))" | g where "r = Some (Permanent (Extern g))"
    by blast
  then show ?case
  proof cases
    case 1
    with Suc.prems op show ?thesis by simp
  next
    case 2
    with Suc.prems op have "Retry (operation M connRegister props) n s1 = (Some e, s')"
      by simp
    then show ?thesis by (rule Suc.IH)
  next
    case 3
    with Suc.prems op show ?thesis by auto
  qed
qed

lemma createNamedConnection_error:
  assumes "createNamedConnection M x meta = ((c, Some e), x')"
  shows "e = Errorf ''unknown connection type'' \<or> (\<exists>g. e = Extern g)"
proof (cases "ConnectionRegister M (ToLower M (Typ meta))")
  case None
  with assms show ?thesis by (simp add: createNamedConnection_def)
next
  case (Some connRegister)
  obtain err c1 x1 where r: "Retry (operation M connRegister (Props meta)) (NextBackOffs M x) (nil, x)
                       = (err, (c1, x1))"
    by (cases "Retry (operation M connRegister (Props meta)) (NextBackOffs M x) (nil, x)") auto
  with assms Some have "err = Some e" by (simp add: createNamedConnection_def)
  with r Retry_error_is_foreign show ?thesis by blast
qed


lemma createNamedConnection_unknown:
  "ConnectionRegister M (ToLower M (Typ meta)) = None \<Longrightarrow>
   createNamedConnection M x meta = ((nil, Some (Errorf ''unknown connection type'')), x)"
  by (simp add: createNamedConnection_def)

lemma createNamedConnection_success:
  "ConnectionRegister M (ToLower M (Typ meta)) = Some connRegister \<Longrightarrow>
   connRegister x (Props meta) = ((c, None), x') \<Longrightarrow>
   createNamedConnection M x meta = ((c, None), x')"
  by (cases "NextBackOffs M x") (simp_all add: createNamedConnection_def operation_def)

lemma createNamedConnection_permanent:
  "ConnectionRegister M (ToLower M (Typ meta)) = Some connRegister \<Longrightarrow>
   connRegister x (Props meta) = ((c, Some e), x') \<Longrightarrow> \<not> IsIOError M e \<Longrightarrow>
   createNamedConnection M x meta = ((c, Some (Extern e)), x')"
  by (cases "NextBackOffs M x") (simp_all add: createNamedConnection_def operation_def)

lemma createNamedConnection_transient:
  assumes "ConnectionRegister M (ToLower M (Typ meta)) = Some connRegister"
    and "connRegister x (Props meta) = ((c, Some e), x')" and "IsIOError M e"
  shows "createNamedConnection M x meta =
           (case NextBackOffs M x of
              0 \<Rightarrow> ((c, Some (Extern e)), x')
            | Suc b \<Rightarrow> createNamedConnection (M\<lparr>NextBackOffs := \<lambda>_. b\<rparr>) x' meta)"
proof (cases "NextBackOffs M x")
  case 0
  with assms show ?thesis
    by (simp add: createNamedConnection_def operation_def)
next
  case (Suc b)
  have "createNamedConnection M x meta =
          (case Retry (operation M connRegister (Props meta)) b (c, x') of
             (err, (c', x'')) \<Rightarrow> ((c', err), x''))"
    using assms Suc by (simp add: createNamedConnection_def operation_def)
  also have "\<dots> = (case Retry (operation M connRegister (Props meta)) b (nil, x') of
             (err, (c', x'')) \<Rightarrow> ((c', err), x''))"
    by (simp only: Retry_conn_irrelevant [of M connRegister "Props meta" b c x' nil])
  also have "\<dots> = createNamedConnection (M\<lparr>NextBackOffs := \<lambda>_. b\<rparr>) x' meta"
    using assms(1) by (simp add: createNamedConnection_def operation_NextBackOffs)
  finally show ?thesis
    using Suc by simp
qed

text \<open>
  C4: the factory driver. When the lowercased type is not in the register, the driver
  returns \<^verbatim>\<open>unknown connection type\<close> and the outside world is as it was: whatever the
  factories and the backoff policy are, none was called. Otherwise the factory is called;
  its success is the driver's result; an error that \<^verbatim>\<open>IsIOError\<close> does not classify as
  transient is the driver's result after this one call, whatever the policy grants; a
  transient error is the driver's result only when the policy grants no interval, and
  otherwise the driver goes on as a driver started in the world the failed call left, with
  one interval less.
\<close>

theorem factory_driver:
  "(ConnectionRegister M (ToLower M (Typ meta)) = None \<longrightarrow>
      createNamedConnection M x meta = ((nil, Some (Errorf ''unknown connection type'')), x))
   \<and> (\<forall>connRegister c x'. ConnectionRegister M (ToLower M (Typ meta)) = Some connRegister \<longrightarrow>
         (connRegister x (Props meta) = ((c, None), x') \<longrightarrow>
            createNamedConnection M x meta = ((c, None), x'))
       \<and> (\<forall>e. connRegister x (Props meta) = ((c, Some e), x') \<and> \<not> IsIOError M e \<longrightarrow>
              createNamedConnection M x meta = ((c, Some (Extern e)), x'))
       \<and> (\<forall>e. connRegister x (Props meta) = ((c, Some e), x') \<and> IsIOError M e \<longrightarrow>
              createNamedConnection M x meta =
                (case NextBackOffs M x of
                   0 \<Rightarrow> ((c, Some (Extern e)), x')
                 | Suc b \<Rightarrow> createNamedConnection (M\<lparr>NextBackOffs := \<lambda>_. b\<rparr>) x' meta)))"
  using createNamedConnection_unknown [of M meta x]
    createNamedConnection_success [of M meta _ x]
    createNamedConnection_permanent [of M meta _ x]
    createNamedConnection_transient [of M meta _ x]
  by blast


lemma asciiLower_names:
  "asciiLower ''nope'' = ''nope''" "asciiLower ''Bad'' = ''bad''"
  "asciiLower ''flaky'' = ''flaky''" "asciiLower ''mock'' = ''mock''"
  "asciiLower ''bad'' = ''bad''"
  by code_simp+

lemma mock_register:
  "ConnectionRegister mockModules (ToLower mockModules ''nope'') = None"
  "ConnectionRegister mockModules (ToLower mockModules ''Bad'') = Some badFactory"
  "ConnectionRegister mockModules (ToLower mockModules ''flaky'') = Some flakyFactory"
  "ConnectionRegister mockModules (ToLower mockModules ''mock'') = Some mockFactory"
  "ConnectionRegister mockModules (ToLower mockModules ''bad'') = Some badFactory"
  by (simp_all add: mockModules_def asciiLower_names)

lemma mock_classifier:
  "IsIOError mockModules (Foreign 1 m)" "\<not> IsIOError mockModules (Foreign 0 m)"
  by (simp_all add: mockModules_def)

theorem factory_driver_witness:
  "createNamedConnection mockModules 0
     \<lparr>ID = ''c1'', Typ = ''nope'', Props = [], conn = nil, refCount = 0\<rparr>
     = ((nil, Some (Errorf ''unknown connection type'')), 0)
   \<and> createNamedConnection mockModules 0
     \<lparr>ID = ''c1'', Typ = ''Bad'', Props = [], conn = nil, refCount = 0\<rparr>
     = ((nil, Some (Extern (Foreign 0 ''bad configuration''))), 1)
   \<and> createNamedConnection mockModules 0
     \<lparr>ID = ''c1'', Typ = ''flaky'', Props = [], conn = nil, refCount = 0\<rparr>
     = ((Conn 1, None), 2)"
proof -
  let ?nope = "\<lparr>ID = ''c1'', Typ = ''nope'', Props = [], conn = nil, refCount = 0\<rparr>"
  let ?bad = "\<lparr>ID = ''c1'', Typ = ''Bad'', Props = [], conn = nil, refCount = 0\<rparr>"
  let ?flaky = "\<lparr>ID = ''c1'', Typ = ''flaky'', Props = [], conn = nil, refCount = 0\<rparr>"
  let ?M2 = "mockModules\<lparr>NextBackOffs := \<lambda>_. 2\<rparr>"
  have a: "createNamedConnection mockModules 0 ?nope
             = ((nil, Some (Errorf ''unknown connection type'')), 0)"
    using factory_driver [of mockModules ?nope 0] mock_register(1) by simp
  have b: "createNamedConnection mockModules 0 ?bad
             = ((nil, Some (Extern (Foreign 0 ''bad configuration''))), 1)"
    using factory_driver [of mockModules ?bad 0] mock_register(2) mock_classifier(2)
    by (simp add: badFactory_def)
  have reg2: "ConnectionRegister ?M2 (ToLower ?M2 ''flaky'') = Some flakyFactory"
    using mock_register(3) by simp
  have c2: "createNamedConnection ?M2 1 ?flaky = ((Conn 1, None), 2)"
    using factory_driver [of ?M2 ?flaky 1] reg2
    by (simp add: flakyFactory_def)
  have three: "NextBackOffs mockModules 0 = Suc 2"
    by (simp add: mockModules_def)
  have io: "IsIOError mockModules (Foreign 1 ''connection refused'')"
    by (rule mock_classifier(1))
  have first: "flakyFactory 0 [] = ((nil, Some (Foreign 1 ''connection refused'')), 1)"
    by (simp add: flakyFactory_def)
  have c1: "createNamedConnection mockModules 0 ?flaky = createNamedConnection ?M2 1 ?flaky"
    using factory_driver [of mockModules ?flaky 0] mock_register(3) first io three
    by simp
  show ?thesis
    using a b c1 c2 by simp
qed

subsection \<open>Creating\<close>

lemma storeConnectionMeta_ok:
  "WriteCfgErr M (ext w) = None \<Longrightarrow>
   storeConnectionMeta M plugin cid props w
     = (None, w\<lparr>kv := AList.update (buildKey ''connections'' plugin cid) props (kv w)\<rparr>)"
  by (simp add: storeConnectionMeta_def WriteCfgIntoKVStorage_def)

lemma storeConnectionMeta_err:
  "WriteCfgErr M (ext w) = Some e \<Longrightarrow>
   storeConnectionMeta M plugin cid props w = (Some (Extern e), w)"
  by (simp add: storeConnectionMeta_def WriteCfgIntoKVStorage_def)

lemma CreateNamedConnection_duplicate:
  "cid \<noteq> [] \<Longrightarrow> typ \<noteq> [] \<Longrightarrow> connectionPool w cid = Some meta \<Longrightarrow>
   CreateNamedConnection M w cid typ props
     = ((nil, Some (Errorf (''connection '' @ cid @ '' already been created''))), w)"
  by (simp add: CreateNamedConnection_def)

lemma CreateNamedConnection_store_failure:
  "cid \<noteq> [] \<Longrightarrow> typ \<noteq> [] \<Longrightarrow> connectionPool w cid = None \<Longrightarrow>
   WriteCfgErr M (ext w) = Some e \<Longrightarrow>
   CreateNamedConnection M w cid typ props = ((nil, Some (Extern e)), w)"
  by (simp add: CreateNamedConnection_def storeConnectionMeta_err)

lemma CreateNamedConnection_factory_failure:
  "cid \<noteq> [] \<Longrightarrow> typ \<noteq> [] \<Longrightarrow> connectionPool w cid = None \<Longrightarrow>
   WriteCfgErr M (ext w) = None \<Longrightarrow>
   createNamedConnection M (ext w)
     \<lparr>ID = cid, Typ = typ, Props = props, conn = nil, refCount = 0\<rparr> = ((c, Some err), x') \<Longrightarrow>
   CreateNamedConnection M w cid typ props
     = ((nil, Some err),
        w\<lparr>kv := AList.update (buildKey ''connections'' typ cid) props (kv w), ext := x'\<rparr>)"
  by (simp add: CreateNamedConnection_def storeConnectionMeta_ok)

lemma CreateNamedConnection_success:
  "cid \<noteq> [] \<Longrightarrow> typ \<noteq> [] \<Longrightarrow> connectionPool w cid = None \<Longrightarrow>
   WriteCfgErr M (ext w) = None \<Longrightarrow>
   createNamedConnection M (ext w)
     \<lparr>ID = cid, Typ = typ, Props = props, conn = nil, refCount = 0\<rparr> = ((c, None), x') \<Longrightarrow>
   CreateNamedConnection M w cid typ props
     = ((c, None),
        w\<lparr>kv := AList.update (buildKey ''connections'' typ cid) props (kv w), ext := x',
          connectionPool :=
            (connectionPool w)(cid \<mapsto> \<lparr>ID = cid, Typ = typ, Props = props, conn = c, refCount = 0\<rparr>),
          failConnection := (failConnection w)(cid := None)\<rparr>)"
  by (auto simp: CreateNamedConnection_def storeConnectionMeta_ok fun_upd_idem)

lemma CreateNonStoredConnection_duplicate:
  "cid \<noteq> [] \<Longrightarrow> typ \<noteq> [] \<Longrightarrow> connectionPool w cid = Some meta \<Longrightarrow>
   CreateNonStoredConnection M w cid typ props
     = ((nil, Some (Errorf (''connection '' @ cid @ '' already been created''))), w)"
  by (simp add: CreateNonStoredConnection_def)

lemma CreateNonStoredConnection_factory_failure:
  "cid \<noteq> [] \<Longrightarrow> typ \<noteq> [] \<Longrightarrow> connectionPool w cid = None \<Longrightarrow>
   createNamedConnection M (ext w)
     \<lparr>ID = cid, Typ = typ, Props = props, conn = nil, refCount = 0\<rparr> = ((c, Some err), x') \<Longrightarrow>
   CreateNonStoredConnection M w cid typ props = ((nil, Some err), w\<lparr>ext := x'\<rparr>)"
  by (simp add: CreateNonStoredConnection_def)

lemma CreateNonStoredConnection_success:
  "cid \<noteq> [] \<Longrightarrow> typ \<noteq> [] \<Longrightarrow> connectionPool w cid = None \<Longrightarrow>
   createNamedConnection M (ext w)
     \<lparr>ID = cid, Typ = typ, Props = props, conn = nil, refCount = 0\<rparr> = ((c, None), x') \<Longrightarrow>
   CreateNonStoredConnection M w cid typ props
     = ((c, None),
        w\<lparr>ext := x',
          connectionPool :=
            (connectionPool w)(cid \<mapsto> \<lparr>ID = cid, Typ = typ, Props = props, conn = c, refCount = 0\<rparr>)\<rparr>)"
  by (simp add: CreateNonStoredConnection_def)

text \<open>
  C5: when \<^verbatim>\<open>CreateNamedConnection\<close> gets past validation and the duplicate check, the
  store write succeeds and the factory driver then fails, the call returns the driver's
  error, both tables are as before (so the id is not live), no connection is closed, and
  the store binds \<^verbatim>\<open>connections.<typ>.<id>\<close> to the property bag: the write is not rolled
  back.
\<close>

theorem create_named_keeps_store_entry:
  assumes "cid \<noteq> []" and "typ \<noteq> []" and "connectionPool w cid = None"
    and "WriteCfgErr M (ext w) = None"
    and "createNamedConnection M (ext w)
           \<lparr>ID = cid, Typ = typ, Props = props, conn = nil, refCount = 0\<rparr> = ((c, Some err), x')"
  shows "fst (CreateNamedConnection M w cid typ props) = (nil, Some err)
       \<and> connectionPool (snd (CreateNamedConnection M w cid typ props)) = connectionPool w
       \<and> failConnection (snd (CreateNamedConnection M w cid typ props)) = failConnection w
       \<and> connectionPool (snd (CreateNamedConnection M w cid typ props)) cid = None
       \<and> closed (snd (CreateNamedConnection M w cid typ props)) = closed w
       \<and> map_of (kv (snd (CreateNamedConnection M w cid typ props)))
            (''connections.'' @ typ @ ''.'' @ cid) = Some props"
  using assms(3)
  by (simp add: CreateNamedConnection_factory_failure [OF assms] update_conv buildKey_def)

lemma bad_driver:
  "createNamedConnection mockModules (ext world0)
     \<lparr>ID = ''c1'', Typ = ''bad'', Props = [], conn = nil, refCount = 0\<rparr>
     = ((nil, Some (Extern (Foreign 0 ''bad configuration''))), 1)"
  by code_simp

theorem create_named_keeps_store_entry_witness:
  "fst (CreateNamedConnection mockModules world0 ''c1'' ''bad'' [])
     = (nil, Some (Extern (Foreign 0 ''bad configuration'')))
   \<and> connectionPool (snd (CreateNamedConnection mockModules world0 ''c1'' ''bad'' [])) ''c1'' = None
   \<and> map_of (kv (snd (CreateNamedConnection mockModules world0 ''c1'' ''bad'' [])))
        ''connections.bad.c1'' = Some []"
proof -
  have h1: "''c1'' \<noteq> []" and h2: "''bad'' \<noteq> []" by simp_all
  have h3: "connectionPool world0 ''c1'' = None" by (simp add: world0_def)
  have h4: "WriteCfgErr mockModules (ext world0) = None" by (simp add: mockModules_def)
  show ?thesis
    using create_named_keeps_store_entry [OF h1 h2 h3 h4 bad_driver] h3 by simp
qed


text \<open>
  C6: with a non-empty id and type, \<^verbatim>\<open>CreateNamedConnection\<close> and
  \<^verbatim>\<open>CreateNonStoredConnection\<close> return the error
  \<^verbatim>\<open>connection <id> already been created\<close> exactly when the id is in the live table at
  the call (the error is the value the duplicate check builds; what a factory or the store
  hands back is another value, whatever its message). What either returns does not depend
  on the failed table, so an entry there blocks nothing; and after a successful
  \<^verbatim>\<open>CreateNamedConnection\<close> the id is live and no longer in the failed table.
\<close>

theorem duplicate_check_reads_live_table:
  assumes "cid \<noteq> []" and "typ \<noteq> []"
  shows "(snd (fst (CreateNamedConnection M w cid typ props))
            = Some (Errorf (''connection '' @ cid @ '' already been created''))
          \<longleftrightarrow> connectionPool w cid \<noteq> None)
       \<and> (snd (fst (CreateNonStoredConnection M w cid typ props))
            = Some (Errorf (''connection '' @ cid @ '' already been created''))
          \<longleftrightarrow> connectionPool w cid \<noteq> None)
       \<and> fst (CreateNamedConnection M (w\<lparr>failConnection := F\<rparr>) cid typ props)
            = fst (CreateNamedConnection M w cid typ props)
       \<and> fst (CreateNonStoredConnection M (w\<lparr>failConnection := F\<rparr>) cid typ props)
            = fst (CreateNonStoredConnection M w cid typ props)
       \<and> (\<forall>c w'. CreateNamedConnection M w cid typ props = ((c, None), w') \<longrightarrow>
             failConnection w' cid = None \<and> connectionPool w' cid \<noteq> None)"
proof (cases "connectionPool w cid")
  case (Some meta)
  then have live': "connectionPool (w\<lparr>failConnection := F\<rparr>) cid = Some meta" by simp
  show ?thesis
    by (simp add: CreateNamedConnection_duplicate [OF assms Some]
        CreateNamedConnection_duplicate [OF assms live']
        CreateNonStoredConnection_duplicate [OF assms Some]
        CreateNonStoredConnection_duplicate [OF assms live'] Some)
next
  case None
  let ?meta = "\<lparr>ID = cid, Typ = typ, Props = props, conn = nil, refCount = 0\<rparr>"
  let ?w = "w\<lparr>failConnection := F\<rparr>"
  have none': "connectionPool ?w cid = None" using None by simp
  obtain c eo x' where drv: "createNamedConnection M (ext w) ?meta = ((c, eo), x')"
    by (cases "createNamedConnection M (ext w) ?meta") auto
  then have drv': "createNamedConnection M (ext ?w) ?meta = ((c, eo), x')" by simp
  have notdup: "eo \<noteq> Some (Errorf (''connection '' @ cid @ '' already been created''))"
  proof (cases eo)
    case None
    then show ?thesis by simp
  next
    case (Some e)
    with drv createNamedConnection_error [of M "ext w" ?meta c e x']
    show ?thesis by auto
  qed
  have nonstored: "(snd (fst (CreateNonStoredConnection M w cid typ props))
            = Some (Errorf (''connection '' @ cid @ '' already been created''))
          \<longleftrightarrow> connectionPool w cid \<noteq> None)
       \<and> fst (CreateNonStoredConnection M ?w cid typ props)
            = fst (CreateNonStoredConnection M w cid typ props)"
  proof (cases eo)
    case None
    with drv drv' show ?thesis
      using CreateNonStoredConnection_success [OF assms \<open>connectionPool w cid = None\<close>, of M props c x']
        CreateNonStoredConnection_success [OF assms none', of M props c x']
        \<open>connectionPool w cid = None\<close>
      by simp
  next
    case (Some e)
    with drv drv' notdup show ?thesis
      using CreateNonStoredConnection_factory_failure [OF assms \<open>connectionPool w cid = None\<close>, of M props c e x']
        CreateNonStoredConnection_factory_failure [OF assms none', of M props c e x']
        \<open>connectionPool w cid = None\<close>
      by simp
  qed
  have named: "(snd (fst (CreateNamedConnection M w cid typ props))
            = Some (Errorf (''connection '' @ cid @ '' already been created''))
          \<longleftrightarrow> connectionPool w cid \<noteq> None)
       \<and> fst (CreateNamedConnection M ?w cid typ props)
            = fst (CreateNamedConnection M w cid typ props)
       \<and> (\<forall>c w'. CreateNamedConnection M w cid typ props = ((c, None), w') \<longrightarrow>
             failConnection w' cid = None \<and> connectionPool w' cid \<noteq> None)"
  proof (cases "WriteCfgErr M (ext w)")
    case (Some e)
    then have wr': "WriteCfgErr M (ext ?w) = Some e" by simp
    show ?thesis
      using CreateNamedConnection_store_failure [OF assms \<open>connectionPool w cid = None\<close> Some]
        CreateNamedConnection_store_failure [OF assms none' wr'] \<open>connectionPool w cid = None\<close>
      by simp
  next
    case wr: None
    then have wr': "WriteCfgErr M (ext ?w) = None" by simp
    show ?thesis
    proof (cases eo)
      case None
      with drv drv' show ?thesis
        using CreateNamedConnection_success [OF assms \<open>connectionPool w cid = None\<close> wr, of props c x']
          CreateNamedConnection_success [OF assms none' wr', of props c x']
          \<open>connectionPool w cid = None\<close>
        by auto
    next
      case (Some e)
      with drv drv' notdup show ?thesis
        using CreateNamedConnection_factory_failure [OF assms \<open>connectionPool w cid = None\<close> wr, of props c e x']
          CreateNamedConnection_factory_failure [OF assms none' wr', of props c e x']
          \<open>connectionPool w cid = None\<close>
        by simp
    qed
  qed
  show ?thesis
    using named nonstored by blast
qed


lemma reloadedWorld_tables:
  "connectionPool reloadedWorld ''c1''
     = Some \<lparr>ID = ''c1'', Typ = ''mock'', Props = [], conn = Conn 0, refCount = 0\<rparr>"
  "failConnection reloadedWorld ''c1'' = None"
  "connectionPool reloadedWorld ''c2'' = None"
  "failConnection reloadedWorld ''c2'' = Some ''bad configuration''"
  by code_simp+

lemma reloadedWorld_create:
  "fst (CreateNamedConnection mockModules reloadedWorld ''c2'' ''mock'' []) = (Conn 2, None)"
  by code_simp

theorem duplicate_check_reads_live_table_witness:
  "connectionPool namedWorld ''c1''
     = Some \<lparr>ID = ''c1'', Typ = ''mock'', Props = [], conn = Conn 0, refCount = 0\<rparr>
   \<and> snd (fst (CreateNamedConnection mockModules namedWorld ''c1'' ''mock'' []))
       = Some (Errorf ''connection c1 already been created'')
   \<and> failConnection reloadedWorld ''c2'' = Some ''bad configuration''
   \<and> connectionPool reloadedWorld ''c2'' = None
   \<and> fst (CreateNamedConnection mockModules reloadedWorld ''c2'' ''mock'' []) = (Conn 2, None)
   \<and> failConnection (snd (CreateNamedConnection mockModules reloadedWorld ''c2'' ''mock'' [])) ''c2''
       = None"
proof -
  have n1: "''c1'' \<noteq> []" and n2: "''c2'' \<noteq> []" and n3: "''mock'' \<noteq> []" by simp_all
  have dup: "snd (fst (CreateNamedConnection mockModules namedWorld ''c1'' ''mock'' []))
       = Some (Errorf ''connection c1 already been created'')"
    using duplicate_check_reads_live_table [OF n1 n3, of mockModules namedWorld "[]"]
    by (simp add: namedWorld_record)
  have made: "CreateNamedConnection mockModules reloadedWorld ''c2'' ''mock'' []
       = ((Conn 2, None), snd (CreateNamedConnection mockModules reloadedWorld ''c2'' ''mock'' []))"
    using reloadedWorld_create by (simp add: prod_eq_iff)
  have cleaned: "failConnection
       (snd (CreateNamedConnection mockModules reloadedWorld ''c2'' ''mock'' [])) ''c2'' = None"
    using duplicate_check_reads_live_table [OF n2 n3, of mockModules reloadedWorld "[]"] made
    by blast
  show ?thesis
    using dup cleaned by (simp add: namedWorld_record reloadedWorld_tables reloadedWorld_create)
qed

subsection \<open>Dropping\<close>

lemma dropConnectionStore_ok:
  "DropCfgErr M (ext w) = None \<Longrightarrow>
   dropConnectionStore M plugin cid w
     = (None, w\<lparr>kv := AList.delete (buildKey ''connections'' plugin cid) (kv w)\<rparr>)"
  by (simp add: dropConnectionStore_def DropCfgKeyFromStorage_def)

lemma dropConnectionStore_err:
  "DropCfgErr M (ext w) = Some e \<Longrightarrow> dropConnectionStore M plugin cid w = (Some (Extern e), w)"
  by (simp add: dropConnectionStore_def DropCfgKeyFromStorage_def)

lemma DropNameConnection_absent:
  "selId \<noteq> [] \<Longrightarrow> connectionPool w selId = None \<Longrightarrow>
   DropNameConnection M w selId
     = (Returns None, w\<lparr>failConnection := (failConnection w)(selId := None)\<rparr>)"
  by (auto simp: DropNameConnection_def fun_upd_idem)

lemma DropNameConnection_referenced:
  "selId \<noteq> [] \<Longrightarrow> connectionPool w selId = Some meta \<Longrightarrow> 0 <s refCount meta \<Longrightarrow>
   DropNameConnection M w selId
     = (Returns (Some (Errorf (''connection '' @ selId @ '' can't be dropped due to reference''))),
        w)"
  by (simp add: DropNameConnection_def)

lemma DropNameConnection_store_failure:
  "selId \<noteq> [] \<Longrightarrow> connectionPool w selId = Some meta \<Longrightarrow> \<not> 0 <s refCount meta \<Longrightarrow>
   DropCfgErr M (ext w) = Some e \<Longrightarrow>
   DropNameConnection M w selId
     = (Returns (Some (Errorf (''drop connection '' @ selId @ '' failed, err:''
                               @ ErrorString (Extern e)))), w)"
  by (simp add: DropNameConnection_def dropConnectionStore_err)

lemma DropNameConnection_done:
  "selId \<noteq> [] \<Longrightarrow> connectionPool w selId = Some meta \<Longrightarrow> \<not> 0 <s refCount meta \<Longrightarrow>
   DropCfgErr M (ext w) = None \<Longrightarrow> conn meta \<noteq> nil \<Longrightarrow>
   DropNameConnection M w selId
     = (Returns None,
        w\<lparr>kv := AList.delete (buildKey ''connections'' (Typ meta) selId) (kv w),
          closed := conn meta # closed w,
          connectionPool := (connectionPool w)(selId := None)\<rparr>)"
  by (simp add: DropNameConnection_def dropConnectionStore_ok)

lemma DropNameConnection_panic:
  "selId \<noteq> [] \<Longrightarrow> connectionPool w selId = Some meta \<Longrightarrow> \<not> 0 <s refCount meta \<Longrightarrow>
   DropCfgErr M (ext w) = None \<Longrightarrow> conn meta = nil \<Longrightarrow>
   DropNameConnection M w selId
     = (Panics, w\<lparr>kv := AList.delete (buildKey ''connections'' (Typ meta) selId) (kv w)\<rparr>)"
  by (simp add: DropNameConnection_def dropConnectionStore_ok)

text \<open>
  C8: whenever \<^verbatim>\<open>DropNameConnection\<close> with a non-empty id returns an error, both tables
  are as before, no \<^verbatim>\<open>Close\<close> was called and the id is still live; the error is
  \<^verbatim>\<open>connection <id> can't be dropped due to reference\<close> when the record's count is
  positive, and \<^verbatim>\<open>drop connection <id> failed, err:<cause>\<close> when it is not and the store
  refused the delete.
\<close>

theorem drop_error_changes_nothing:
  assumes "selId \<noteq> []" and "DropNameConnection M w selId = (Returns (Some err), w')"
  shows "connectionPool w' = connectionPool w
       \<and> failConnection w' = failConnection w
       \<and> closed w' = closed w
       \<and> (\<exists>meta. connectionPool w' selId = Some meta
            \<and> ((0 <s refCount meta
                 \<and> err = Errorf (''connection '' @ selId @ '' can't be dropped due to reference''))
               \<or> (\<not> 0 <s refCount meta
                 \<and> (\<exists>cause. DropCfgErr M (ext w) = Some cause
                      \<and> err = Errorf (''drop connection '' @ selId @ '' failed, err:''
                                       @ ErrorString (Extern cause))))))"
proof (cases "connectionPool w selId")
  case None
  with assms DropNameConnection_absent [OF assms(1) None, of M] show ?thesis by simp
next
  case (Some meta)
  show ?thesis
  proof (cases "0 <s refCount meta")
    case True
    with assms DropNameConnection_referenced [OF assms(1) Some True, of M] Some
    show ?thesis by auto
  next
    case False
    show ?thesis
    proof (cases "DropCfgErr M (ext w)")
      case None
      show ?thesis
      proof (cases "conn meta = nil")
        case True
        with assms DropNameConnection_panic [OF assms(1) Some False None] show ?thesis by simp
      next
        case False
        with assms DropNameConnection_done [OF assms(1) Some \<open>\<not> 0 <s refCount meta\<close> None]
        show ?thesis by simp
      qed
    next
      case (Some cause)
      with assms DropNameConnection_store_failure [OF assms(1) \<open>connectionPool w selId = Some meta\<close> False Some]
        \<open>connectionPool w selId = Some meta\<close> False
      show ?thesis by auto
    qed
  qed
qed

lemma sharedWorld_record:
  "connectionPool sharedWorld ''c1''
     = Some \<lparr>ID = ''c1'', Typ = ''mock'', Props = [], conn = Conn 0, refCount = 1\<rparr>"
  by code_simp

lemma drop_fixtures:
  "fst (DropNameConnection mockModules sharedWorld ''c1'')
     = Returns (Some (Errorf ''connection c1 can't be dropped due to reference''))"
  "fst (DropNameConnection failingStore namedWorld ''c1'')
     = Returns (Some (Errorf ''drop connection c1 failed, err:disk full''))"
  by code_simp+

theorem drop_error_changes_nothing_witness:
  "fst (DropNameConnection mockModules sharedWorld ''c1'')
     = Returns (Some (Errorf ''connection c1 can't be dropped due to reference''))
   \<and> connectionPool (snd (DropNameConnection mockModules sharedWorld ''c1''))
       = connectionPool sharedWorld
   \<and> closed (snd (DropNameConnection mockModules sharedWorld ''c1'')) = closed sharedWorld
   \<and> fst (DropNameConnection failingStore namedWorld ''c1'')
       = Returns (Some (Errorf ''drop connection c1 failed, err:disk full''))
   \<and> connectionPool (snd (DropNameConnection failingStore namedWorld ''c1''))
       = connectionPool namedWorld
   \<and> closed (snd (DropNameConnection failingStore namedWorld ''c1'')) = closed namedWorld"
proof -
  have n: "''c1'' \<noteq> []" by simp
  have a: "DropNameConnection mockModules sharedWorld ''c1''
       = (Returns (Some (Errorf ''connection c1 can't be dropped due to reference'')),
          snd (DropNameConnection mockModules sharedWorld ''c1''))"
    using drop_fixtures(1) by (simp add: prod_eq_iff)
  have b: "DropNameConnection failingStore namedWorld ''c1''
       = (Returns (Some (Errorf ''drop connection c1 failed, err:disk full'')),
          snd (DropNameConnection failingStore namedWorld ''c1''))"
    using drop_fixtures(2) by (simp add: prod_eq_iff)
  show ?thesis
    using drop_error_changes_nothing [OF n a] drop_error_changes_nothing [OF n b] drop_fixtures
    by simp
qed

subsection \<open>What a call can do to the state\<close>

lemma CreateNamedConnection_invalid:
  "cid = [] \<or> typ = [] \<Longrightarrow>
   CreateNamedConnection M w cid typ props
     = ((nil, Some (Errorf ''connection id and type should be defined'')), w)"
  by (simp add: CreateNamedConnection_def)

lemma CreateNonStoredConnection_invalid:
  "cid = [] \<or> typ = [] \<Longrightarrow>
   CreateNonStoredConnection M w cid typ props
     = ((nil, Some (Errorf ''connection id and type should be defined'')), w)"
  by (simp add: CreateNonStoredConnection_def)

lemma CreateNamedConnection_world:
  "snd (CreateNamedConnection M w cid typ props) = w
   \<or> (\<exists>x'. snd (CreateNamedConnection M w cid typ props)
          = w\<lparr>kv := AList.update (buildKey ''connections'' typ cid) props (kv w), ext := x'\<rparr>)
   \<or> (\<exists>c x'. connectionPool w cid = None
          \<and> snd (CreateNamedConnection M w cid typ props)
            = w\<lparr>kv := AList.update (buildKey ''connections'' typ cid) props (kv w), ext := x',
                connectionPool :=
                  (connectionPool w)
                    (cid \<mapsto> \<lparr>ID = cid, Typ = typ, Props = props, conn = c, refCount = 0\<rparr>),
                failConnection := (failConnection w)(cid := None)\<rparr>)"
proof (cases "cid = [] \<or> typ = []")
  case True
  then show ?thesis by (simp add: CreateNamedConnection_invalid)
next
  case False
  then have ne: "cid \<noteq> []" "typ \<noteq> []" by simp_all
  show ?thesis
  proof (cases "connectionPool w cid")
    case (Some meta)
    show ?thesis by (simp add: CreateNamedConnection_duplicate [OF ne Some])
  next
    case None
    show ?thesis
    proof (cases "WriteCfgErr M (ext w)")
      case (Some e)
      show ?thesis by (simp add: CreateNamedConnection_store_failure [OF ne None Some])
    next
      case wr: None
      obtain c eo x' where drv: "createNamedConnection M (ext w)
          \<lparr>ID = cid, Typ = typ, Props = props, conn = nil, refCount = 0\<rparr> = ((c, eo), x')"
        by (cases "createNamedConnection M (ext w)
          \<lparr>ID = cid, Typ = typ, Props = props, conn = nil, refCount = 0\<rparr>") auto
      show ?thesis
      proof (cases eo)
        case None
        with drv CreateNamedConnection_success [OF ne \<open>connectionPool w cid = None\<close> wr, of props c x']
        show ?thesis using \<open>connectionPool w cid = None\<close> by auto
      next
        case (Some e)
        with drv CreateNamedConnection_factory_failure [OF ne None wr, of props c e x']
        show ?thesis by auto
      qed
    qed
  qed
qed

lemma CreateNonStoredConnection_world:
  "snd (CreateNonStoredConnection M w cid typ props) = w
   \<or> (\<exists>x'. snd (CreateNonStoredConnection M w cid typ props) = w\<lparr>ext := x'\<rparr>)
   \<or> (\<exists>c x'. connectionPool w cid = None
          \<and> snd (CreateNonStoredConnection M w cid typ props)
            = w\<lparr>ext := x',
                connectionPool :=
                  (connectionPool w)
                    (cid \<mapsto> \<lparr>ID = cid, Typ = typ, Props = props, conn = c, refCount = 0\<rparr>)\<rparr>)"
proof (cases "cid = [] \<or> typ = []")
  case True
  then show ?thesis by (simp add: CreateNonStoredConnection_invalid)
next
  case False
  then have ne: "cid \<noteq> []" "typ \<noteq> []" by simp_all
  show ?thesis
  proof (cases "connectionPool w cid")
    case (Some meta)
    show ?thesis by (simp add: CreateNonStoredConnection_duplicate [OF ne Some])
  next
    case None
    obtain c eo x' where drv: "createNamedConnection M (ext w)
        \<lparr>ID = cid, Typ = typ, Props = props, conn = nil, refCount = 0\<rparr> = ((c, eo), x')"
      by (cases "createNamedConnection M (ext w)
        \<lparr>ID = cid, Typ = typ, Props = props, conn = nil, refCount = 0\<rparr>") auto
    show ?thesis
    proof (cases eo)
      case None
      with drv CreateNonStoredConnection_success [OF ne \<open>connectionPool w cid = None\<close>, of M props c x']
      show ?thesis using \<open>connectionPool w cid = None\<close> by auto
    next
      case (Some e)
      with drv CreateNonStoredConnection_factory_failure [OF ne None, of M props c e x']
      show ?thesis by auto
    qed
  qed
qed

lemma attachConnection_world:
  "snd (attachConnection w s) = w
   \<or> (\<exists>meta. s \<noteq> [] \<and> connectionPool w s = Some meta
          \<and> snd (attachConnection w s)
            = w\<lparr>connectionPool :=
                  (connectionPool w)(s \<mapsto> meta\<lparr>refCount := refCount meta + 1\<rparr>)\<rparr>)"
  by (simp add: attachConnection_def split: option.splits)

lemma detachConnection_remove_world:
  "snd (detachConnection w cid True) = w
   \<or> (\<exists>meta. connectionPool w cid = Some meta \<and> conn meta \<noteq> nil
          \<and> snd (detachConnection w cid True)
            = w\<lparr>closed := conn meta # closed w,
                connectionPool := (connectionPool w)(cid := None)\<rparr>)"
  by (simp add: detachConnection_def split: option.splits)

lemma detachConnection_keep_world:
  "snd (detachConnection w s False) = w
   \<or> (\<exists>meta. connectionPool w s = Some meta
          \<and> snd (detachConnection w s False)
            = w\<lparr>connectionPool :=
                  (connectionPool w)(s \<mapsto> meta\<lparr>refCount := refCount meta - 1\<rparr>)\<rparr>)"
  by (simp add: detachConnection_def split: option.splits)

lemma DropNameConnection_world:
  "snd (DropNameConnection M w selId) = w
   \<or> (connectionPool w selId = None
        \<and> snd (DropNameConnection M w selId)
            = w\<lparr>failConnection := (failConnection w)(selId := None)\<rparr>)
   \<or> (\<exists>meta. connectionPool w selId = Some meta \<and> \<not> 0 <s refCount meta
          \<and> DropCfgErr M (ext w) = None \<and> conn meta = nil
          \<and> snd (DropNameConnection M w selId)
            = w\<lparr>kv := AList.delete (buildKey ''connections'' (Typ meta) selId) (kv w)\<rparr>)
   \<or> (\<exists>meta. connectionPool w selId = Some meta \<and> \<not> 0 <s refCount meta
          \<and> DropCfgErr M (ext w) = None \<and> conn meta \<noteq> nil
          \<and> snd (DropNameConnection M w selId)
            = w\<lparr>kv := AList.delete (buildKey ''connections'' (Typ meta) selId) (kv w),
                closed := conn meta # closed w,
                connectionPool := (connectionPool w)(selId := None)\<rparr>)"
proof (cases "selId = []")
  case True
  then show ?thesis by (simp add: DropNameConnection_def)
next
  case ne: False
  show ?thesis
  proof (cases "connectionPool w selId")
    case None
    show ?thesis by (simp add: DropNameConnection_absent [OF ne None] None)
  next
    case (Some meta)
    show ?thesis
    proof (cases "0 <s refCount meta")
      case True
      show ?thesis by (simp add: DropNameConnection_referenced [OF ne Some True])
    next
      case False
      show ?thesis
      proof (cases "DropCfgErr M (ext w)")
        case None
        show ?thesis
        proof (cases "conn meta = nil")
          case True
          with Some False None show ?thesis
            by (simp add: DropNameConnection_panic [OF ne Some False None True])
        next
          case notnil: False
          with Some False None show ?thesis
            by (simp add: DropNameConnection_done [OF ne Some False None notnil])
        qed
      next
        case (Some e)
        show ?thesis
          by (simp add: DropNameConnection_store_failure [OF ne \<open>connectionPool w selId = Some meta\<close> False Some])
      qed
    qed
  qed
qed

lemma reloadEntries_skip:
  "entryID key = None \<Longrightarrow> reloadEntries M ((key, props) # cfgs) w = reloadEntries M cfgs w"
  by (simp add: entryID_def Let_def split: if_splits)

lemma reloadEntries_step:
  assumes "entryID key = Some i"
  shows "\<exists>w1. reloadEntries M ((key, props) # cfgs) w = reloadEntries M cfgs w1
          \<and> ((\<exists>x' msg. w1 = w\<lparr>ext := x', failConnection := (failConnection w)(i \<mapsto> msg)\<rparr>)
             \<or> (\<exists>x' c t. w1 = w\<lparr>ext := x',
                    connectionPool :=
                      (connectionPool w)
                        (i \<mapsto> \<lparr>ID = i, Typ = t, Props = props, conn = c, refCount = 0\<rparr>)\<rparr>))"
proof -
  let ?names = "Split key CHR ''.''"
  from assms have len: "length ?names = 3" and i: "i = ?names ! 2"
    by (auto simp: entryID_def Let_def split: if_splits)
  let ?meta = "\<lparr>ID = i, Typ = ?names ! 1, Props = props, conn = nil, refCount = 0\<rparr>"
  obtain c eo x' where drv: "createNamedConnection M (ext w) ?meta = ((c, eo), x')"
    by (cases "createNamedConnection M (ext w) ?meta") auto
  show ?thesis
  proof (cases eo)
    case None
    with drv len i have "reloadEntries M ((key, props) # cfgs) w
        = reloadEntries M cfgs (w\<lparr>ext := x',
            connectionPool := (connectionPool w)
              (i \<mapsto> \<lparr>ID = i, Typ = ?names ! 1, Props = props, conn = c, refCount = 0\<rparr>)\<rparr>)"
      by (simp add: Let_def)
    then show ?thesis by blast
  next
    case (Some e)
    with drv len i have "reloadEntries M ((key, props) # cfgs) w
        = reloadEntries M cfgs (w\<lparr>ext := x',
            failConnection := (failConnection w)(i \<mapsto> ErrorString e)\<rparr>)"
      by (simp add: Let_def)
    then show ?thesis by blast
  qed
qed

subsection \<open>Reference counts\<close>

lemma nonneg_frame:
  "connectionPool w' = connectionPool w \<Longrightarrow> refCountsNonNegative w \<Longrightarrow> refCountsNonNegative w'"
  by (simp add: refCountsNonNegative_def)

lemma nonneg_put:
  "connectionPool w' = (connectionPool w)(cid \<mapsto> meta) \<Longrightarrow> 0 \<le>s refCount meta \<Longrightarrow>
   refCountsNonNegative w \<Longrightarrow> refCountsNonNegative w'"
  by (simp add: refCountsNonNegative_def)

lemma nonneg_remove:
  "connectionPool w' = (connectionPool w)(cid := None) \<Longrightarrow>
   refCountsNonNegative w \<Longrightarrow> refCountsNonNegative w'"
  by (simp add: refCountsNonNegative_def)

lemma nonneg_new:
  "connectionPool w' =
     (connectionPool w)(cid \<mapsto> \<lparr>ID = a, Typ = b, Props = p, conn = c, refCount = 0\<rparr>) \<Longrightarrow>
   refCountsNonNegative w \<Longrightarrow> refCountsNonNegative w'"
  by (simp add: refCountsNonNegative_def word_sle_eq)

lemma sle_succ:
  fixes x :: "64 word"
  assumes "0 \<le>s x" and "sint x \<noteq> 2 ^ 63 - 1"
  shows "0 \<le>s x + 1"
  using assms by (simp add: word_sle_eq sint_succ)

lemma sle_pred:
  fixes x :: "64 word"
  assumes "0 <s x"
  shows "0 \<le>s x - 1"
proof -
  from assms have pos: "0 < sint x" by (simp add: word_sless_alt)
  then have "sint x \<noteq> - (2 ^ 63)" by simp
  then have "sint (x - 1) = sint x - 1" by (rule sint_pred)
  with pos show ?thesis by (simp add: word_sle_eq)
qed

lemma CreateNamedConnection_nonneg:
  "refCountsNonNegative w \<Longrightarrow>
   refCountsNonNegative (snd (CreateNamedConnection M w cid typ props))"
  using CreateNamedConnection_world [of M w cid "typ" props]
  by (elim disjE exE conjE) (auto intro: nonneg_frame nonneg_new)

lemma CreateNonStoredConnection_nonneg:
  "refCountsNonNegative w \<Longrightarrow>
   refCountsNonNegative (snd (CreateNonStoredConnection M w cid typ props))"
  using CreateNonStoredConnection_world [of M w cid "typ" props]
  by (elim disjE exE conjE) (auto intro: nonneg_frame nonneg_new)

lemma DropNameConnection_nonneg:
  "refCountsNonNegative w \<Longrightarrow> refCountsNonNegative (snd (DropNameConnection M w selId))"
  using DropNameConnection_world [of M w selId]
  by (elim disjE exE conjE) (auto intro: nonneg_frame nonneg_remove)

lemma reloadEntries_nonneg:
  "refCountsNonNegative w \<Longrightarrow> refCountsNonNegative (reloadEntries M cfgs w)"
proof (induction cfgs arbitrary: w)
  case Nil
  then show ?case by simp
next
  case (Cons entry cfgs)
  obtain key props where entry: "entry = (key, props)" by (cases entry)
  show ?case
  proof (cases "entryID key")
    case None
    with Cons entry show ?thesis by (simp add: reloadEntries_skip del: reloadEntries.simps)
  next
    case (Some i)
    from reloadEntries_step [OF Some, of M props cfgs w] obtain w1 where
      eq: "reloadEntries M ((key, props) # cfgs) w = reloadEntries M cfgs w1" and
      w1: "(\<exists>x' msg. w1 = w\<lparr>ext := x', failConnection := (failConnection w)(i \<mapsto> msg)\<rparr>)
             \<or> (\<exists>x' c t. w1 = w\<lparr>ext := x',
                    connectionPool :=
                      (connectionPool w)
                        (i \<mapsto> \<lparr>ID = i, Typ = t, Props = props, conn = c, refCount = 0\<rparr>)\<rparr>)"
      by blast
    from w1 Cons.prems have "refCountsNonNegative w1"
      by (elim disjE exE) (auto intro: nonneg_frame nonneg_new)
    then have "refCountsNonNegative (reloadEntries M cfgs w1)" by (rule Cons.IH)
    with eq entry show ?thesis by (simp del: reloadEntries.simps)
  qed
qed

lemma ReloadConnection_nonneg:
  "refCountsNonNegative w \<Longrightarrow> refCountsNonNegative (snd (ReloadConnection M w))"
  by (auto simp: ReloadConnection_def reloadEntries_nonneg split: prod.splits option.splits)

lemma FetchConnection_nonneg:
  assumes "refCountsNonNegative w" and "balanced w (CallFetch cid typ props)"
  shows "refCountsNonNegative (snd (FetchConnection M w cid typ props))"
proof (cases "cid = []")
  case True
  with assms(1) show ?thesis by (simp add: FetchConnection_def)
next
  case ne: False
  show ?thesis
  proof (cases "extractSelID props = []")
    case True
    with ne assms(1) show ?thesis
      by (simp add: FetchConnection_def CreateNonStoredConnection_nonneg)
  next
    case False
    let ?s = "extractSelID props"
    from ne False have eq: "FetchConnection M w cid typ props = attachConnection w ?s"
      by (simp add: FetchConnection_def)
    from attachConnection_world [of w ?s] show ?thesis
    proof (elim disjE exE conjE)
      assume "snd (attachConnection w ?s) = w"
      with assms(1) eq show ?thesis by simp
    next
      fix meta
      assume live: "connectionPool w ?s = Some meta"
        and w': "snd (attachConnection w ?s)
            = w\<lparr>connectionPool :=
                  (connectionPool w)(?s \<mapsto> meta\<lparr>refCount := refCount meta + 1\<rparr>)\<rparr>"
      from assms(1) live have "0 \<le>s refCount meta"
        by (simp add: refCountsNonNegative_def)
      moreover from assms(2) ne False live have "sint (refCount meta) \<noteq> 2 ^ 63 - 1"
        by simp
      ultimately have "0 \<le>s refCount meta + 1" by (rule sle_succ)
      then have "refCountsNonNegative (snd (attachConnection w ?s))"
        using assms(1) by (auto simp: w' intro: nonneg_put)
      with eq show ?thesis by simp
    qed
  qed
qed

lemma DetachConnection_nonneg:
  assumes "refCountsNonNegative w" and "balanced w (CallDetach cid props)"
  shows "refCountsNonNegative (snd (DetachConnection w cid props))"
proof (cases "cid = []")
  case True
  with assms(1) show ?thesis by (simp add: DetachConnection_def)
next
  case ne: False
  show ?thesis
  proof (cases "extractSelID props = []")
    case True
    with ne have eq: "DetachConnection w cid props = detachConnection w cid True"
      by (simp add: DetachConnection_def)
    from detachConnection_remove_world [of w cid] assms(1) show ?thesis
      unfolding eq by (elim disjE exE conjE) (auto intro: nonneg_remove)
  next
    case False
    let ?s = "extractSelID props"
    from ne False have eq: "DetachConnection w cid props = detachConnection w ?s False"
      by (simp add: DetachConnection_def)
    from detachConnection_keep_world [of w ?s] show ?thesis
    proof (elim disjE exE conjE)
      assume "snd (detachConnection w ?s False) = w"
      with assms(1) eq show ?thesis by simp
    next
      fix meta
      assume live: "connectionPool w ?s = Some meta"
        and w': "snd (detachConnection w ?s False)
            = w\<lparr>connectionPool :=
                  (connectionPool w)(?s \<mapsto> meta\<lparr>refCount := refCount meta - 1\<rparr>)\<rparr>"
      from assms(2) ne False live have "0 <s refCount meta" by simp
      then have "0 \<le>s refCount meta - 1" by (rule sle_pred)
      then have "refCountsNonNegative (snd (detachConnection w ?s False))"
        using assms(1) by (auto simp: w' intro: nonneg_put)
      with eq show ?thesis by simp
    qed
  qed
qed

lemma exec_nonneg:
  "refCountsNonNegative w \<Longrightarrow> balanced w c \<Longrightarrow> refCountsNonNegative (exec M c w)"
proof (cases c)
  case (Elsewhere x)
  assume "refCountsNonNegative w"
  with Elsewhere show ?thesis by (simp add: refCountsNonNegative_def)
qed (simp_all add: CreateNamedConnection_nonneg CreateNonStoredConnection_nonneg
      FetchConnection_nonneg DetachConnection_nonneg DropNameConnection_nonneg
      ReloadConnection_nonneg)

lemma run_nonneg:
  "refCountsNonNegative w \<Longrightarrow> balancedRun M cs w \<Longrightarrow> refCountsNonNegative (run M cs w)"
  by (induction cs arbitrary: w) (simp_all add: exec_nonneg)

lemma InitConnectionManager_nonneg: "refCountsNonNegative (InitConnectionManager w)"
  by (simp add: refCountsNonNegative_def InitConnectionManager_def)


text \<open>
  C1 as stated fails. Create \<open>c1\<close>; its count is 0. A \<^verbatim>\<open>DetachConnection\<close> whose
  selector names \<open>c1\<close> runs \<^verbatim>\<open>meta.refCount--\<close> with no test: the record stays live
  with count \<open>-1\<close>.
\<close>

theorem refcount_negative_counterexample:
  "connectionPool (run mockModules [CallCreateNamed ''c1'' ''mock'' []] world0) ''c1''
     = Some \<lparr>ID = ''c1'', Typ = ''mock'', Props = [], conn = Conn 0, refCount = 0\<rparr>
   \<and> connectionPool
        (run mockModules [CallCreateNamed ''c1'' ''mock'' [], CallDetach ''x'' selC1] world0) ''c1''
     = Some \<lparr>ID = ''c1'', Typ = ''mock'', Props = [], conn = Conn 0, refCount = - 1\<rparr>
   \<and> sint (GetConnectionRef
        (run mockModules [CallCreateNamed ''c1'' ''mock'' [], CallDetach ''x'' selC1] world0) ''c1'')
     = - 1
   \<and> \<not> refCountsNonNegative
        (run mockModules [CallCreateNamed ''c1'' ''mock'' [], CallDetach ''x'' selC1] world0)"
proof -
  let ?w = "run mockModules [CallCreateNamed ''c1'' ''mock'' [], CallDetach ''x'' selC1] world0"
  have a: "connectionPool (run mockModules [CallCreateNamed ''c1'' ''mock'' []] world0) ''c1''
     = Some \<lparr>ID = ''c1'', Typ = ''mock'', Props = [], conn = Conn 0, refCount = 0\<rparr>"
    by code_simp
  have b: "connectionPool ?w ''c1''
     = Some \<lparr>ID = ''c1'', Typ = ''mock'', Props = [], conn = Conn 0, refCount = - 1\<rparr>"
    by code_simp
  have c: "sint (GetConnectionRef ?w ''c1'') = - 1"
    unfolding GetConnectionRef_def b by simp
  have d: "\<not> refCountsNonNegative ?w"
  proof
    assume "refCountsNonNegative ?w"
    then have "0 \<le>s refCount
        \<lparr>ID = ''c1'', Typ = ''mock'', Props = [], conn = Conn 0, refCount = - 1\<rparr>"
      using b unfolding refCountsNonNegative_def by blast
    then show False by (simp add: word_sle_eq)
  qed
  show ?thesis
    using a b c d by blast
qed

text \<open>
  C1, amended: in every state reached from the initial one by public calls, each balanced
  in the state it runs in, every live record has a count of at least 0. A call is
  balanced unless it detaches by selector from a live record whose count is not positive,
  or attaches to a live record whose count is the largest \<^verbatim>\<open>int\<close>. The outside world
  may move between the calls.
\<close>

theorem refcounts_nonnegative_when_balanced:
  assumes "balancedRun M cs (InitConnectionManager w0)"
  shows "refCountsNonNegative (run M cs (InitConnectionManager w0))"
  using InitConnectionManager_nonneg assms by (rule run_nonneg)

theorem refcounts_nonnegative_when_balanced_witness:
  "balancedRun mockModules
     [CallCreateNamed ''c1'' ''mock'' [], CallFetch ''x'' ''mock'' selC1, CallDetach ''x'' selC1,
      CallFetch ''anon1'' ''mock'' [], CallDetach ''anon1'' [], CallReload, CallDrop ''c1'']
     (InitConnectionManager world0)
   \<and> refCountsNonNegative (run mockModules
     [CallCreateNamed ''c1'' ''mock'' [], CallFetch ''x'' ''mock'' selC1, CallDetach ''x'' selC1,
      CallFetch ''anon1'' ''mock'' [], CallDetach ''anon1'' [], CallReload, CallDrop ''c1'']
     (InitConnectionManager world0))"
proof -
  have b: "balancedRun mockModules
     [CallCreateNamed ''c1'' ''mock'' [], CallFetch ''x'' ''mock'' selC1, CallDetach ''x'' selC1,
      CallFetch ''anon1'' ''mock'' [], CallDetach ''anon1'' [], CallReload, CallDrop ''c1'']
     (InitConnectionManager world0)"
    by code_simp
  show ?thesis
    using refcounts_nonnegative_when_balanced [OF b] b by simp
qed

subsection \<open>Calls of Close\<close>

lemma CreateNamedConnection_closed:
  "closed (snd (CreateNamedConnection M w cid typ props)) = closed w"
  using CreateNamedConnection_world [of M w cid "typ" props]
  by (elim disjE exE conjE) simp_all

lemma CreateNonStoredConnection_closed:
  "closed (snd (CreateNonStoredConnection M w cid typ props)) = closed w"
  using CreateNonStoredConnection_world [of M w cid "typ" props]
  by (elim disjE exE conjE) simp_all

lemma attachConnection_closed: "closed (snd (attachConnection w s)) = closed w"
  using attachConnection_world [of w s]
  by (elim disjE exE conjE) simp_all

lemma FetchConnection_closed:
  "closed (snd (FetchConnection M w cid typ props)) = closed w"
  by (simp add: FetchConnection_def Let_def CreateNonStoredConnection_closed
      attachConnection_closed)

lemma reloadEntries_closed: "closed (reloadEntries M cfgs w) = closed w"
proof (induction cfgs arbitrary: w)
  case Nil
  then show ?case by simp
next
  case (Cons entry cfgs)
  obtain key props where entry: "entry = (key, props)" by (cases entry)
  show ?case
  proof (cases "entryID key")
    case None
    with Cons entry show ?thesis by (simp add: reloadEntries_skip del: reloadEntries.simps)
  next
    case (Some i)
    from reloadEntries_step [OF Some, of M props cfgs w] obtain w1 where
      eq: "reloadEntries M ((key, props) # cfgs) w = reloadEntries M cfgs w1" and
      w1: "(\<exists>x' msg. w1 = w\<lparr>ext := x', failConnection := (failConnection w)(i \<mapsto> msg)\<rparr>)
             \<or> (\<exists>x' c t. w1 = w\<lparr>ext := x',
                    connectionPool :=
                      (connectionPool w)
                        (i \<mapsto> \<lparr>ID = i, Typ = t, Props = props, conn = c, refCount = 0\<rparr>)\<rparr>)"
      by blast
    from w1 have "closed w1 = closed w" by (elim disjE exE) simp_all
    moreover have "closed (reloadEntries M cfgs w1) = closed w1" by (rule Cons.IH)
    ultimately show ?thesis using eq entry by (simp del: reloadEntries.simps)
  qed
qed

lemma ReloadConnection_closed: "closed (snd (ReloadConnection M w)) = closed w"
  by (auto simp: ReloadConnection_def reloadEntries_closed split: prod.splits option.splits)

lemma DetachConnection_by_selector_closed:
  "extractSelID props \<noteq> [] \<Longrightarrow> closed (snd (DetachConnection w cid props)) = closed w"
  using detachConnection_keep_world [of w "extractSelID props"]
  by (auto simp: DetachConnection_def)

text \<open>
  C2 as stated fails. After \<open>c1\<close> is created and one caller has attached to it, its count
  is 1. A \<^verbatim>\<open>DetachConnection\<close> without selector under the id \<open>c1\<close> takes the
  \<^verbatim>\<open>remove\<close> branch of \<^verbatim>\<open>detachConnection\<close>, which closes the connection and deletes the
  record without reading the count.
\<close>

theorem close_while_referenced_counterexample:
  "connectionPool sharedWorld ''c1''
     = Some \<lparr>ID = ''c1'', Typ = ''mock'', Props = [], conn = Conn 0, refCount = 1\<rparr>
   \<and> 0 <s (1 :: 64 word)
   \<and> closed sharedWorld = []
   \<and> closed (exec mockModules (CallDetach ''c1'' []) sharedWorld) = [Conn 0]
   \<and> connectionPool (exec mockModules (CallDetach ''c1'' []) sharedWorld) ''c1'' = None"
proof -
  have a: "closed sharedWorld = []"
    "closed (exec mockModules (CallDetach ''c1'' []) sharedWorld) = [Conn 0]"
    "connectionPool (exec mockModules (CallDetach ''c1'' []) sharedWorld) ''c1'' = None"
    by code_simp+
  have b: "0 <s (1 :: 64 word)" by (simp add: word_sless_alt)
  show ?thesis
    using sharedWorld_record a b by blast
qed

text \<open>
  C2, amended: a public call closes a connection in two cases only, once each time: the
  connection is not \<open>nil\<close> and belongs to a record that is live when the call starts and
  gone when it ends. Either the call is a \<^verbatim>\<open>DetachConnection\<close> that carries no usable
  selector, and the record is the one under the caller's id, whatever its count; or it is a
  \<^verbatim>\<open>DropNameConnection\<close>, the record's count is not positive, and the store has deleted
  its entry. (On a record whose connection is \<open>nil\<close> the call of \<^verbatim>\<open>Close\<close> panics:
  nothing is closed and the record stays.)
\<close>

theorem close_only_by_detach_by_id_or_drop:
  assumes "closed (exec M call w) \<noteq> closed w"
  shows "(\<exists>cid props meta. call = CallDetach cid props \<and> cid \<noteq> [] \<and> extractSelID props = []
            \<and> connectionPool w cid = Some meta \<and> conn meta \<noteq> nil
            \<and> closed (exec M call w) = conn meta # closed w
            \<and> connectionPool (exec M call w) = (connectionPool w)(cid := None))
       \<or> (\<exists>selId meta. call = CallDrop selId \<and> connectionPool w selId = Some meta
            \<and> conn meta \<noteq> nil
            \<and> \<not> 0 <s refCount meta \<and> DropCfgErr M (ext w) = None
            \<and> closed (exec M call w) = conn meta # closed w
            \<and> connectionPool (exec M call w) = (connectionPool w)(selId := None))"
proof (cases call)
  case (CallCreateNamed cid t props)
  with assms show ?thesis by (simp add: CreateNamedConnection_closed)
next
  case (CallCreateNonStored cid t props)
  with assms show ?thesis by (simp add: CreateNonStoredConnection_closed)
next
  case (CallFetch cid t props)
  with assms show ?thesis by (simp add: FetchConnection_closed)
next
  case (CallDetach cid props)
  show ?thesis
  proof (cases "extractSelID props = []")
    case False
    with assms CallDetach show ?thesis by (simp add: DetachConnection_by_selector_closed)
  next
    case True
    show ?thesis
    proof (cases "cid = []")
      case True
      with assms CallDetach show ?thesis by (simp add: DetachConnection_def)
    next
      case ne: False
      from ne True have eq: "exec M call w = snd (detachConnection w cid True)"
        using CallDetach by (simp add: DetachConnection_def)
      from detachConnection_remove_world [of w cid] assms show ?thesis
        unfolding eq using CallDetach ne True by (elim disjE exE conjE) auto
    qed
  qed
next
  case (CallDrop selId)
  then have eq: "exec M call w = snd (DropNameConnection M w selId)" by simp
  from DropNameConnection_world [of M w selId] assms show ?thesis
    unfolding eq using CallDrop by (elim disjE exE conjE) auto
next
  case CallReload
  with assms show ?thesis by (simp add: ReloadConnection_closed)
next
  case (Elsewhere x)
  with assms show ?thesis by simp
qed

lemma namedWorld_drop:
  "closed namedWorld = []"
  "closed (exec mockModules (CallDrop ''c1'') namedWorld) = [Conn 0]"
  by code_simp+

theorem close_only_by_detach_by_id_or_drop_witness:
  "closed namedWorld = []
   \<and> closed (exec mockModules (CallDrop ''c1'') namedWorld) = [Conn 0]
   \<and> connectionPool namedWorld ''c1''
       = Some \<lparr>ID = ''c1'', Typ = ''mock'', Props = [], conn = Conn 0, refCount = 0\<rparr>
   \<and> connectionPool (exec mockModules (CallDrop ''c1'') namedWorld)
       = (connectionPool namedWorld)(''c1'' := None)"
proof -
  have h: "closed (exec mockModules (CallDrop ''c1'') namedWorld) \<noteq> closed namedWorld"
    unfolding namedWorld_drop by simp
  have "connectionPool (exec mockModules (CallDrop ''c1'') namedWorld)
       = (connectionPool namedWorld)(''c1'' := None)"
    using close_only_by_detach_by_id_or_drop [OF h] by auto
  then show ?thesis
    using namedWorld_drop namedWorld_record by simp
qed

subsection \<open>Disjointness of the two tables\<close>

lemma disjoint_frame:
  "connectionPool w' = connectionPool w \<Longrightarrow> failConnection w' = failConnection w \<Longrightarrow>
   tablesDisjoint w \<Longrightarrow> tablesDisjoint w'"
  by (simp add: tablesDisjoint_def)

lemma disjoint_live_put:
  "connectionPool w' = (connectionPool w)(cid \<mapsto> meta) \<Longrightarrow>
   failConnection w' = (failConnection w)(cid := None) \<Longrightarrow>
   tablesDisjoint w \<Longrightarrow> tablesDisjoint w'"
  by (auto simp: tablesDisjoint_def)

lemma disjoint_live_put_fresh:
  "connectionPool w' = (connectionPool w)(cid \<mapsto> meta) \<Longrightarrow>
   failConnection w' = failConnection w \<Longrightarrow> failConnection w cid = None \<Longrightarrow>
   tablesDisjoint w \<Longrightarrow> tablesDisjoint w'"
  by (auto simp: tablesDisjoint_def)

lemma disjoint_live_update:
  "connectionPool w' = (connectionPool w)(cid \<mapsto> meta) \<Longrightarrow>
   failConnection w' = failConnection w \<Longrightarrow> connectionPool w cid = Some old \<Longrightarrow>
   tablesDisjoint w \<Longrightarrow> tablesDisjoint w'"
  by (auto simp: tablesDisjoint_def)

lemma disjoint_live_remove:
  "connectionPool w' = (connectionPool w)(cid := None) \<Longrightarrow>
   failConnection w' = failConnection w \<Longrightarrow>
   tablesDisjoint w \<Longrightarrow> tablesDisjoint w'"
  by (auto simp: tablesDisjoint_def)

lemma disjoint_failed_remove:
  "connectionPool w' = connectionPool w \<Longrightarrow>
   failConnection w' = (failConnection w)(cid := None) \<Longrightarrow>
   tablesDisjoint w \<Longrightarrow> tablesDisjoint w'"
  by (auto simp: tablesDisjoint_def)

lemma disjoint_failed_put_fresh:
  "connectionPool w' = connectionPool w \<Longrightarrow>
   failConnection w' = (failConnection w)(cid \<mapsto> msg) \<Longrightarrow> connectionPool w cid = None \<Longrightarrow>
   tablesDisjoint w \<Longrightarrow> tablesDisjoint w'"
  by (auto simp: tablesDisjoint_def)

lemma CreateNamedConnection_disjoint:
  "tablesDisjoint w \<Longrightarrow> tablesDisjoint (snd (CreateNamedConnection M w cid typ props))"
  using CreateNamedConnection_world [of M w cid "typ" props]
  by (elim disjE exE conjE) (auto intro: disjoint_frame disjoint_live_put)

lemma CreateNonStoredConnection_disjoint:
  "tablesDisjoint w \<Longrightarrow> failConnection w cid = None \<Longrightarrow>
   tablesDisjoint (snd (CreateNonStoredConnection M w cid typ props))"
  using CreateNonStoredConnection_world [of M w cid "typ" props]
  by (elim disjE exE conjE) (auto intro: disjoint_frame disjoint_live_put_fresh)

lemma attachConnection_disjoint:
  "tablesDisjoint w \<Longrightarrow> tablesDisjoint (snd (attachConnection w s))"
  using attachConnection_world [of w s]
  by (elim disjE exE conjE) (auto intro: disjoint_live_update)

lemma detachConnection_disjoint:
  "tablesDisjoint w \<Longrightarrow> tablesDisjoint (snd (detachConnection w cid remove))"
proof (cases remove)
  case True
  assume "tablesDisjoint w"
  with detachConnection_remove_world [of w cid] True show ?thesis
    by (elim disjE exE conjE) (auto intro: disjoint_live_remove)
next
  case False
  assume "tablesDisjoint w"
  with detachConnection_keep_world [of w cid] False show ?thesis
    by (elim disjE exE conjE) (auto intro: disjoint_live_update)
qed

lemma DropNameConnection_disjoint:
  "tablesDisjoint w \<Longrightarrow> tablesDisjoint (snd (DropNameConnection M w selId))"
  using DropNameConnection_world [of M w selId]
  by (elim disjE exE conjE)
    (auto intro: disjoint_frame disjoint_failed_remove disjoint_live_remove)

lemma listedIDs_Nil: "listedIDs [] = []"
  by (simp add: listedIDs_def List.map_filter_simps)

lemma listedIDs_skip: "entryID key = None \<Longrightarrow> listedIDs ((key, props) # cfgs) = listedIDs cfgs"
  by (simp add: listedIDs_def List.map_filter_simps)

lemma listedIDs_keep:
  "entryID key = Some i \<Longrightarrow> listedIDs ((key, props) # cfgs) = i # listedIDs cfgs"
  by (simp add: listedIDs_def List.map_filter_simps)

lemma reloadEntries_disjoint:
  "tablesDisjoint w \<Longrightarrow> distinct (listedIDs cfgs) \<Longrightarrow>
   (\<forall>i \<in> set (listedIDs cfgs). connectionPool w i = None \<and> failConnection w i = None) \<Longrightarrow>
   tablesDisjoint (reloadEntries M cfgs w)"
proof (induction cfgs arbitrary: w)
  case Nil
  then show ?case by simp
next
  case (Cons entry cfgs)
  obtain key props where entry: "entry = (key, props)" by (cases entry)
  show ?case
  proof (cases "entryID key")
    case None
    with Cons entry show ?thesis
      by (simp add: reloadEntries_skip listedIDs_skip del: reloadEntries.simps)
  next
    case (Some i)
    have ids: "listedIDs (entry # cfgs) = i # listedIDs cfgs"
      using Some entry by (simp add: listedIDs_keep)
    from Cons.prems(2) ids have dist: "distinct (listedIDs cfgs)" and notin: "i \<notin> set (listedIDs cfgs)"
      by simp_all
    from Cons.prems(3) ids have fresh_i: "connectionPool w i = None" "failConnection w i = None"
      and fresh: "\<forall>j \<in> set (listedIDs cfgs). connectionPool w j = None \<and> failConnection w j = None"
      by simp_all
    from reloadEntries_step [OF Some, of M props cfgs w] obtain w1 where
      eq: "reloadEntries M ((key, props) # cfgs) w = reloadEntries M cfgs w1" and
      w1: "(\<exists>x' msg. w1 = w\<lparr>ext := x', failConnection := (failConnection w)(i \<mapsto> msg)\<rparr>)
             \<or> (\<exists>x' c t. w1 = w\<lparr>ext := x',
                    connectionPool :=
                      (connectionPool w)
                        (i \<mapsto> \<lparr>ID = i, Typ = t, Props = props, conn = c, refCount = 0\<rparr>)\<rparr>)"
      by blast
    from w1 Cons.prems(1) fresh_i have d1: "tablesDisjoint w1"
      by (elim disjE exE) (auto intro: disjoint_failed_put_fresh disjoint_live_put_fresh)
    from w1 fresh notin
    have f1: "\<forall>j \<in> set (listedIDs cfgs). connectionPool w1 j = None \<and> failConnection w1 j = None"
      by (elim disjE exE) auto
    from d1 dist f1 have "tablesDisjoint (reloadEntries M cfgs w1)" by (rule Cons.IH)
    with eq entry show ?thesis by (simp del: reloadEntries.simps)
  qed
qed

lemma ReloadConnection_disjoint:
  assumes "tablesDisjoint w" and "tidy M w CallReload"
  shows "tablesDisjoint (snd (ReloadConnection M w))"
proof (cases "GetCfgFromKVStorage M ''connections'' w")
  case (Pair cfgs eo)
  show ?thesis
  proof (cases eo)
    case (Some e)
    with Pair assms(1) show ?thesis by (simp add: ReloadConnection_def)
  next
    case None
    from assms(2) Pair have "distinct (listedIDs cfgs)"
      and "\<forall>i \<in> set (listedIDs cfgs). connectionPool w i = None \<and> failConnection w i = None"
      by (simp_all add: Let_def)
    with assms(1) have "tablesDisjoint (reloadEntries M cfgs w)" by (rule reloadEntries_disjoint)
    with Pair None show ?thesis by (simp add: ReloadConnection_def)
  qed
qed

lemma FetchConnection_disjoint:
  assumes "tablesDisjoint w" and "tidy M w (CallFetch cid typ props)"
  shows "tablesDisjoint (snd (FetchConnection M w cid typ props))"
proof (cases "cid = []")
  case True
  with assms(1) show ?thesis by (simp add: FetchConnection_def)
next
  case ne: False
  show ?thesis
  proof (cases "extractSelID props = []")
    case True
    with assms(2) have "failConnection w cid = None" by simp
    with assms(1) ne True show ?thesis
      by (simp add: FetchConnection_def CreateNonStoredConnection_disjoint)
  next
    case False
    with assms(1) ne show ?thesis
      by (simp add: FetchConnection_def attachConnection_disjoint)
  qed
qed

lemma DetachConnection_disjoint:
  "tablesDisjoint w \<Longrightarrow> tablesDisjoint (snd (DetachConnection w cid props))"
  by (simp add: DetachConnection_def Let_def detachConnection_disjoint)

lemma exec_disjoint:
  assumes "tablesDisjoint w" and "tidy M w call"
  shows "tablesDisjoint (exec M call w)"
proof (cases call)
  case (CallCreateNamed cid t props)
  with assms show ?thesis by (simp add: CreateNamedConnection_disjoint)
next
  case (CallCreateNonStored cid t props)
  with assms show ?thesis by (simp add: CreateNonStoredConnection_disjoint)
next
  case (CallFetch cid t props)
  with assms show ?thesis by (simp only: exec.simps FetchConnection_disjoint)
next
  case (CallDetach cid props)
  with assms show ?thesis by (simp add: DetachConnection_disjoint)
next
  case (CallDrop selId)
  with assms show ?thesis by (simp add: DropNameConnection_disjoint)
next
  case CallReload
  with assms show ?thesis by (simp only: exec.simps ReloadConnection_disjoint)
next
  case (Elsewhere x)
  with assms show ?thesis by (simp add: tablesDisjoint_def)
qed

lemma world0_disjoint: "tablesDisjoint world0"
  by (simp add: tablesDisjoint_def world0_def)


lemma storedWorld_disjoint: "tablesDisjoint storedWorld"
  by (simp add: tablesDisjoint_def storedWorld_def world0_def)

lemma storedWorld_tidy: "tidy mockModules storedWorld CallReload"
  by code_simp

lemma reloadedWorld_disjoint: "tablesDisjoint reloadedWorld"
  unfolding reloadedWorld_def
  using storedWorld_disjoint storedWorld_tidy by (rule ReloadConnection_disjoint)

text \<open>
  C3 as stated fails, in two ways. First, create \<open>c1\<close> with a type whose factory fails: the
  entry \<^verbatim>\<open>connections.bad.c1\<close> stays in the store. Create \<open>c1\<close> again with the type
  \<open>mock\<close>: the store now lists \<open>c1\<close> under two types, and the tables are disjoint.
  \<^verbatim>\<open>ReloadConnection\<close> files the failure of the first key in the failed table and the
  success of the second in the live table, both under \<open>c1\<close>. Second, after a reload has
  put \<open>c2\<close> into the failed table, \<^verbatim>\<open>CreateNonStoredConnection\<close> of \<open>c2\<close> makes it live
  and leaves the failed entry.
\<close>

theorem tables_overlap_counterexample:
  "tablesDisjoint
     (run mockModules [CallCreateNamed ''c1'' ''bad'' [], CallCreateNamed ''c1'' ''mock'' []] world0)
   \<and> kv (run mockModules [CallCreateNamed ''c1'' ''bad'' [], CallCreateNamed ''c1'' ''mock'' []] world0)
       = [(''connections.bad.c1'', []), (''connections.mock.c1'', [])]
   \<and> connectionPool
        (run mockModules
           [CallCreateNamed ''c1'' ''bad'' [], CallCreateNamed ''c1'' ''mock'' [], CallReload] world0)
        ''c1''
       = Some \<lparr>ID = ''c1'', Typ = ''mock'', Props = [], conn = Conn 3, refCount = 0\<rparr>
   \<and> failConnection
        (run mockModules
           [CallCreateNamed ''c1'' ''bad'' [], CallCreateNamed ''c1'' ''mock'' [], CallReload] world0)
        ''c1''
       = Some ''bad configuration''
   \<and> \<not> tablesDisjoint
        (run mockModules
           [CallCreateNamed ''c1'' ''bad'' [], CallCreateNamed ''c1'' ''mock'' [], CallReload] world0)
   \<and> tablesDisjoint reloadedWorld
   \<and> failConnection reloadedWorld ''c2'' = Some ''bad configuration''
   \<and> connectionPool (exec mockModules (CallCreateNonStored ''c2'' ''mock'' []) reloadedWorld) ''c2''
       = Some \<lparr>ID = ''c2'', Typ = ''mock'', Props = [], conn = Conn 2, refCount = 0\<rparr>
   \<and> failConnection (exec mockModules (CallCreateNonStored ''c2'' ''mock'' []) reloadedWorld) ''c2''
       = Some ''bad configuration''
   \<and> \<not> tablesDisjoint (exec mockModules (CallCreateNonStored ''c2'' ''mock'' []) reloadedWorld)"
proof -
  let ?two = "[CallCreateNamed ''c1'' ''bad'' [], CallCreateNamed ''c1'' ''mock'' []]"
  let ?three = "[CallCreateNamed ''c1'' ''bad'' [], CallCreateNamed ''c1'' ''mock'' [], CallReload]"
  let ?w = "run mockModules ?three world0"
  let ?v = "exec mockModules (CallCreateNonStored ''c2'' ''mock'' []) reloadedWorld"
  have "tablesDisjoint (exec mockModules (CallCreateNamed ''c1'' ''bad'' []) world0)"
    using world0_disjoint by (rule exec_disjoint) simp
  then have "tablesDisjoint (exec mockModules (CallCreateNamed ''c1'' ''mock'' [])
      (exec mockModules (CallCreateNamed ''c1'' ''bad'' []) world0))"
    by (rule exec_disjoint) simp
  then have before: "tablesDisjoint (run mockModules ?two world0)"
    by (simp only: run.simps)
  have store: "kv (run mockModules ?two world0)
       = [(''connections.bad.c1'', []), (''connections.mock.c1'', [])]"
    by code_simp
  have live: "connectionPool ?w ''c1''
       = Some \<lparr>ID = ''c1'', Typ = ''mock'', Props = [], conn = Conn 3, refCount = 0\<rparr>"
    by code_simp
  have failed: "failConnection ?w ''c1'' = Some ''bad configuration''"
    by code_simp
  have both: "\<not> tablesDisjoint ?w"
  proof
    assume "tablesDisjoint ?w"
    moreover have "''c1'' \<in> dom (connectionPool ?w)" using live by (rule domI)
    moreover have "''c1'' \<in> dom (failConnection ?w)" using failed by (rule domI)
    ultimately show False unfolding tablesDisjoint_def by blast
  qed
  have live2: "connectionPool ?v ''c2''
       = Some \<lparr>ID = ''c2'', Typ = ''mock'', Props = [], conn = Conn 2, refCount = 0\<rparr>"
    by code_simp
  have failed2: "failConnection ?v ''c2'' = Some ''bad configuration''"
    by code_simp
  have both2: "\<not> tablesDisjoint ?v"
  proof
    assume "tablesDisjoint ?v"
    moreover have "''c2'' \<in> dom (connectionPool ?v)" using live2 by (rule domI)
    moreover have "''c2'' \<in> dom (failConnection ?v)" using failed2 by (rule domI)
    ultimately show False unfolding tablesDisjoint_def by blast
  qed
  show ?thesis
    using before store live failed both reloadedWorld_disjoint reloadedWorld_tables(4)
      live2 failed2 both2
    by blast
qed

text \<open>
  C3, amended: a public call leaves the two tables disjoint when it finds them disjoint and
  is tidy. \<^verbatim>\<open>CreateNamedConnection\<close>, \<^verbatim>\<open>FetchConnection\<close> with a selector,
  \<^verbatim>\<open>DetachConnection\<close> and \<^verbatim>\<open>DropNameConnection\<close> always are.
  \<^verbatim>\<open>CreateNonStoredConnection\<close>, and \<^verbatim>\<open>FetchConnection\<close> without a selector, are tidy when
  the id is not in the failed table. \<^verbatim>\<open>ReloadConnection\<close> is tidy when the listed keys of
  three segments carry pairwise distinct ids, none of them in either table, as at startup
  over a store that lists each id once.
\<close>

theorem tables_stay_disjoint_when_tidy:
  assumes "tablesDisjoint w" and "tidy M w call"
  shows "tablesDisjoint (exec M call w)"
  using assms by (rule exec_disjoint)

theorem tables_stay_disjoint_when_tidy_witness:
  "tablesDisjoint storedWorld
   \<and> tidy mockModules storedWorld CallReload
   \<and> tablesDisjoint (exec mockModules CallReload storedWorld)
   \<and> connectionPool (exec mockModules CallReload storedWorld) ''c1''
       = Some \<lparr>ID = ''c1'', Typ = ''mock'', Props = [], conn = Conn 0, refCount = 0\<rparr>
   \<and> failConnection (exec mockModules CallReload storedWorld) ''c2'' = Some ''bad configuration''"
proof -
  have a: "connectionPool (exec mockModules CallReload storedWorld) ''c1''
       = Some \<lparr>ID = ''c1'', Typ = ''mock'', Props = [], conn = Conn 0, refCount = 0\<rparr>"
    by code_simp
  have b: "failConnection (exec mockModules CallReload storedWorld) ''c2''
       = Some ''bad configuration''"
    by code_simp
  show ?thesis
    using tables_stay_disjoint_when_tidy [OF storedWorld_disjoint storedWorld_tidy]
      storedWorld_disjoint storedWorld_tidy a b
    by blast
qed

subsection \<open>Fetching and detaching without a usable selector\<close>

lemma CreateNonStoredConnection_made:
  assumes "CreateNonStoredConnection M w cid typ props = ((c, None), w')"
  shows "connectionPool w' =
           (connectionPool w)(cid \<mapsto> \<lparr>ID = cid, Typ = typ, Props = props, conn = c, refCount = 0\<rparr>)
         \<and> kv w' = kv w"
  using assms
  apply (simp add: CreateNonStoredConnection_def Let_def split: if_splits)
  apply (cases "createNamedConnection M (ext w)
           \<lparr>ID = cid, Typ = typ, Props = props, conn = nil, refCount = 0\<rparr>")
  subgoal for a x'
    apply (cases a)
    subgoal for c' e
      by (cases e) auto
    done
  done

lemma DetachConnection_by_id:
  "cid \<noteq> [] \<Longrightarrow> extractSelID props = [] \<Longrightarrow>
   DetachConnection w cid props = detachConnection w cid True"
  by (simp add: DetachConnection_def)

lemma detachConnection_remove_absent:
  "connectionPool w cid = None \<Longrightarrow> detachConnection w cid True = (Returns None, w)"
  by (simp add: detachConnection_def)

lemma detachConnection_remove_closes:
  "connectionPool w cid = Some meta \<Longrightarrow> conn meta \<noteq> nil \<Longrightarrow>
   detachConnection w cid True
     = (Returns None,
        w\<lparr>closed := conn meta # closed w, connectionPool := (connectionPool w)(cid := None)\<rparr>)"
  by (simp add: detachConnection_def)

lemma detachConnection_remove_panics:
  "connectionPool w cid = Some meta \<Longrightarrow> conn meta = nil \<Longrightarrow>
   detachConnection w cid True = (Panics, w)"
  by (simp add: detachConnection_def)

lemma number_fixtures:
  "createNamedConnection mockModules (ext world0)
     \<lparr>ID = ''anon1'', Typ = ''mock'', Props = selNone, conn = nil, refCount = 0\<rparr>
     = ((Conn 0, None), 1)"
  "connectionPool numberWorld ''anon1''
     = Some \<lparr>ID = ''anon1'', Typ = ''mock'', Props = selNone, conn = Conn 0, refCount = 0\<rparr>"
  "closed numberWorld = []"
  "kv numberWorld = []"
  "connectionPool voidWorld ''v1''
     = Some \<lparr>ID = ''v1'', Typ = ''void'', Props = [], conn = nil, refCount = 0\<rparr>"
  by code_simp+

text \<open>
  C9 as stated fails in one place: the detach by the caller's id does not close and remove
  a record whose connection is \<open>nil\<close>. A factory that returns \<open>nil\<close> and no error makes
  \<^verbatim>\<open>FetchConnection\<close> without selector file such a record under \<open>v1\<close>; the
  \<^verbatim>\<open>DetachConnection\<close> without selector under \<open>v1\<close> reaches \<^verbatim>\<open>conn.Close(ctx)\<close>, which
  panics before the \<^verbatim>\<open>delete\<close>: nothing is closed and the record is still live.
\<close>

theorem detach_nil_connection_counterexample:
  "fst (FetchConnection mockModules world0 ''v1'' ''void'' []) = (nil, None)
   \<and> connectionPool voidWorld ''v1''
       = Some \<lparr>ID = ''v1'', Typ = ''void'', Props = [], conn = nil, refCount = 0\<rparr>
   \<and> extractSelID [] = []
   \<and> fst (DetachConnection voidWorld ''v1'' []) = Panics
   \<and> closed (snd (DetachConnection voidWorld ''v1'' [])) = []
   \<and> connectionPool (snd (DetachConnection voidWorld ''v1'' [])) ''v1''
       = Some \<lparr>ID = ''v1'', Typ = ''void'', Props = [], conn = nil, refCount = 0\<rparr>"
  by code_simp

text \<open>
  C9, amended: when the property bag does not bind \<^verbatim>\<open>connectionSelector\<close> to a non-empty
  string (the key is missing, the bag is empty, the value is not a string, or it is the
  empty string), the selector counts as absent. \<^verbatim>\<open>FetchConnection\<close> under a non-empty id
  is \<^verbatim>\<open>CreateNonStoredConnection\<close> under that id: when the type is given, the id is not
  live and the factory driver connects, it returns the driver's connection and files a
  fresh record with count 0 under the caller's id, and nothing else changes but the outside
  world (the store is left alone); and whenever it succeeds, that is what it has done.
  \<^verbatim>\<open>DetachConnection\<close> under a non-empty id is \<^verbatim>\<open>detachConnection\<close> by that id with
  \<^verbatim>\<open>remove\<close> set: nothing happens when the id is not live; a live record that holds a
  connection is closed and removed, no count is touched and no other record changes. On a
  record whose connection is \<open>nil\<close> the call of \<^verbatim>\<open>Close\<close> panics and the state stays as
  it was.
\<close>

theorem selector_unusable_is_absent:
  assumes "\<forall>s. map_of props ''connectionSelector'' = Some (AString s) \<longrightarrow> s = []"
    and "cid \<noteq> []"
  shows "extractSelID props = []
       \<and> FetchConnection M w cid typ props = CreateNonStoredConnection M w cid typ props
       \<and> (\<forall>c x'. typ \<noteq> [] \<and> connectionPool w cid = None
              \<and> createNamedConnection M (ext w)
                   \<lparr>ID = cid, Typ = typ, Props = props, conn = nil, refCount = 0\<rparr> = ((c, None), x')
            \<longrightarrow> FetchConnection M w cid typ props
                  = ((c, None),
                     w\<lparr>ext := x',
                       connectionPool :=
                         (connectionPool w)
                           (cid \<mapsto> \<lparr>ID = cid, Typ = typ, Props = props, conn = c, refCount = 0\<rparr>)\<rparr>))
       \<and> (\<forall>c w'. FetchConnection M w cid typ props = ((c, None), w') \<longrightarrow>
            connectionPool w' =
              (connectionPool w)(cid \<mapsto> \<lparr>ID = cid, Typ = typ, Props = props, conn = c, refCount = 0\<rparr>)
            \<and> kv w' = kv w)
       \<and> DetachConnection w cid props = detachConnection w cid True
       \<and> (connectionPool w cid = None \<longrightarrow> DetachConnection w cid props = (Returns None, w))
       \<and> (\<forall>meta. connectionPool w cid = Some meta \<and> conn meta \<noteq> nil \<longrightarrow>
            DetachConnection w cid props
              = (Returns None,
                 w\<lparr>closed := conn meta # closed w,
                   connectionPool := (connectionPool w)(cid := None)\<rparr>))
       \<and> (\<forall>meta. connectionPool w cid = Some meta \<and> conn meta = nil \<longrightarrow>
            DetachConnection w cid props = (Panics, w))"
proof -
  have sel: "extractSelID props = []"
    using assms(1) by (rule extractSelID_unusable)
  have fetch: "FetchConnection M w cid typ props = CreateNonStoredConnection M w cid typ props"
    using assms(2) by (simp add: FetchConnection_def sel)
  have detach: "DetachConnection w cid props = detachConnection w cid True"
    using assms(2) sel by (rule DetachConnection_by_id)
  show ?thesis
  proof (intro conjI allI impI)
    show "extractSelID props = []" by (fact sel)
    show "FetchConnection M w cid typ props = CreateNonStoredConnection M w cid typ props"
      by (fact fetch)
    show "DetachConnection w cid props = detachConnection w cid True" by (fact detach)
  next
    fix c x'
    assume h: "typ \<noteq> [] \<and> connectionPool w cid = None
              \<and> createNamedConnection M (ext w)
                   \<lparr>ID = cid, Typ = typ, Props = props, conn = nil, refCount = 0\<rparr> = ((c, None), x')"
    then have "typ \<noteq> []" and "connectionPool w cid = None"
      and "createNamedConnection M (ext w)
             \<lparr>ID = cid, Typ = typ, Props = props, conn = nil, refCount = 0\<rparr> = ((c, None), x')"
      by simp_all
    with assms(2) show "FetchConnection M w cid typ props
                  = ((c, None),
                     w\<lparr>ext := x',
                       connectionPool :=
                         (connectionPool w)
                           (cid \<mapsto> \<lparr>ID = cid, Typ = typ, Props = props, conn = c, refCount = 0\<rparr>)\<rparr>)"
      unfolding fetch by (rule CreateNonStoredConnection_success)
  next
    fix c w'
    assume "FetchConnection M w cid typ props = ((c, None), w')"
    then have made: "CreateNonStoredConnection M w cid typ props = ((c, None), w')"
      by (simp only: fetch)
    show "connectionPool w' =
            (connectionPool w)(cid \<mapsto> \<lparr>ID = cid, Typ = typ, Props = props, conn = c, refCount = 0\<rparr>)"
      using CreateNonStoredConnection_made [OF made] by (rule conjunct1)
    show "kv w' = kv w"
      using CreateNonStoredConnection_made [OF made] by (rule conjunct2)
  next
    assume "connectionPool w cid = None"
    then show "DetachConnection w cid props = (Returns None, w)"
      unfolding detach by (rule detachConnection_remove_absent)
  next
    fix meta
    assume "connectionPool w cid = Some meta \<and> conn meta \<noteq> nil"
    then have "connectionPool w cid = Some meta" and "conn meta \<noteq> nil" by simp_all
    then show "DetachConnection w cid props
              = (Returns None,
                 w\<lparr>closed := conn meta # closed w,
                   connectionPool := (connectionPool w)(cid := None)\<rparr>)"
      unfolding detach by (rule detachConnection_remove_closes)
  next
    fix meta
    assume "connectionPool w cid = Some meta \<and> conn meta = nil"
    then have "connectionPool w cid = Some meta" and "conn meta = nil" by simp_all
    then show "DetachConnection w cid props = (Panics, w)"
      unfolding detach by (rule detachConnection_remove_panics)
  qed
qed

theorem selector_unusable_is_absent_witness:
  "map_of selNone ''connectionSelector'' = Some (AInt 7)
   \<and> ''anon1'' \<noteq> []
   \<and> extractSelID selNone = []
   \<and> fst (FetchConnection mockModules world0 ''anon1'' ''mock'' selNone) = (Conn 0, None)
   \<and> connectionPool numberWorld ''anon1''
       = Some \<lparr>ID = ''anon1'', Typ = ''mock'', Props = selNone, conn = Conn 0, refCount = 0\<rparr>
   \<and> kv numberWorld = []
   \<and> fst (DetachConnection numberWorld ''anon1'' selNone) = Returns None
   \<and> closed (snd (DetachConnection numberWorld ''anon1'' selNone)) = [Conn 0]
   \<and> connectionPool (snd (DetachConnection numberWorld ''anon1'' selNone)) ''anon1'' = None
   \<and> DetachConnection voidWorld ''v1'' [] = (Panics, voidWorld)"
proof -
  have h1: "\<forall>s. map_of selNone ''connectionSelector'' = Some (AString s) \<longrightarrow> s = []"
    by (simp add: selNone_def)
  have h0: "\<forall>s. map_of [] ''connectionSelector'' = Some (AString s) \<longrightarrow> s = []"
    by simp
  have m: "map_of selNone ''connectionSelector'' = Some (AInt 7)" by (simp add: selNone_def)
  have n: "''anon1'' \<noteq> []" and v: "''v1'' \<noteq> []" and t: "''mock'' \<noteq> []" by simp_all
  have fresh: "connectionPool world0 ''anon1'' = None" by (simp add: world0_def)
  note at0 = selector_unusable_is_absent [OF h1 n, of mockModules world0 "''mock''"]
  note at1 = selector_unusable_is_absent [OF h1 n, of mockModules numberWorld "''mock''"]
  note atv = selector_unusable_is_absent [OF h0 v, of mockModules voidWorld "''void''"]
  have sel: "extractSelID selNone = []" using at0 by blast
  have f_eq: "FetchConnection mockModules world0 ''anon1'' ''mock'' selNone
       = ((Conn 0, None),
          world0\<lparr>ext := 1,
            connectionPool :=
              (connectionPool world0)
                (''anon1'' \<mapsto> \<lparr>ID = ''anon1'', Typ = ''mock'', Props = selNone, conn = Conn 0,
                               refCount = 0\<rparr>)\<rparr>)"
    using at0 t fresh number_fixtures(1) by blast
  have f: "fst (FetchConnection mockModules world0 ''anon1'' ''mock'' selNone) = (Conn 0, None)"
    by (simp add: f_eq)
  have notnil: "conn \<lparr>ID = ''anon1'', Typ = ''mock'', Props = selNone, conn = Conn 0,
                      refCount = 0\<rparr> \<noteq> nil"
    by simp
  have d_eq: "DetachConnection numberWorld ''anon1'' selNone
       = (Returns None,
          numberWorld\<lparr>closed :=
              conn \<lparr>ID = ''anon1'', Typ = ''mock'', Props = selNone, conn = Conn 0,
                     refCount = 0\<rparr> # closed numberWorld,
            connectionPool := (connectionPool numberWorld)(''anon1'' := None)\<rparr>)"
    using at1 number_fixtures(2) notnil by blast
  have d: "fst (DetachConnection numberWorld ''anon1'' selNone) = Returns None"
    "closed (snd (DetachConnection numberWorld ''anon1'' selNone)) = [Conn 0]"
    "connectionPool (snd (DetachConnection numberWorld ''anon1'' selNone)) ''anon1'' = None"
    by (simp_all add: d_eq number_fixtures(3))
  have isnil: "conn \<lparr>ID = ''v1'', Typ = ''void'', Props = [], conn = nil, refCount = 0\<rparr> = nil"
    by simp
  have p: "DetachConnection voidWorld ''v1'' [] = (Panics, voidWorld)"
    using atv number_fixtures(5) isnil by blast
  show ?thesis
    using m n sel f d p number_fixtures(2,3,4) by simp
qed

end
